theory Spec2Isabelle
  imports Complex_Main
begin

section \<open>Values read from JSON and the Python builtins the code calls\<close>

text \<open>
  The program reads its inputs with \<open>json.loads\<close>. A decoded value is \<open>None\<close>, a
  boolean, an \<open>int\<close>, a \<open>float\<close>, a \<open>str\<close>, a \<open>list\<close> or a \<open>dict\<close>. A \<open>dict\<close> is
  an association list in insertion order, looked up with \<open>map_of\<close>. Python floats are
  read as real numbers: rounding and the non-finite values are outside the model.
  Strings are HOL strings read as ASCII text.
\<close>

datatype json =
    JNull
  | JBool bool
  | JInt int
  | JFloat real
  | JStr string
  | JArr "json list"
  | JObj "(string \<times> json) list"

datatype error = ValueError | AttributeError | TypeError

record date =
  year :: int
  month :: int
  day :: int

record datetime =
  dt_date :: date
  hour :: nat
  minute :: nat
  second :: nat
  microsecond :: nat
  utcoffset :: "int option"

text \<open>
  The standard-library functions that the repository calls and does not define are
  parameters of the model: \<open>str\<close> on a value that is not already a string, \<open>float\<close>
  (\<open>None\<close> when it raises), \<open>datetime.fromisoformat\<close> (\<open>None\<close> when it raises
  \<open>ValueError\<close>) and \<open>datetime.now\<close>, whose reading while the \<open>i\<close>-th position of a
  batch is processed is \<open>now rt i\<close>.
\<close>

record builtins =
  str_other :: "json \<Rightarrow> string"
  float_of :: "json \<Rightarrow> real option"
  fromisoformat :: "string \<Rightarrow> datetime option"
  now :: "nat \<Rightarrow> datetime"

definition py_str :: "builtins \<Rightarrow> json \<Rightarrow> string" where
  "py_str rt x = (case x of JStr s \<Rightarrow> s | _ \<Rightarrow> str_other rt x)"

text \<open>Truth value of a decoded value, as \<open>or\<close> and \<open>not\<close> test it.\<close>

definition truthy :: "json \<Rightarrow> bool" where
  "truthy x =
     (case x of
        JNull \<Rightarrow> False
      | JBool b \<Rightarrow> b
      | JInt i \<Rightarrow> i \<noteq> 0
      | JFloat r \<Rightarrow> r \<noteq> 0
      | JStr s \<Rightarrow> s \<noteq> []
      | JArr xs \<Rightarrow> xs \<noteq> []
      | JObj kvs \<Rightarrow> kvs \<noteq> [])"

definition py_or :: "json \<Rightarrow> json \<Rightarrow> json" where
  "py_or a b = (if truthy a then a else b)"

subsection \<open>String methods\<close>

text \<open>\<open>str.isspace\<close> on the ASCII range: TAB to CR, FS to US, and the space.\<close>

definition isspace :: "char \<Rightarrow> bool" where
  "isspace c = (let n = (of_char c :: nat) in (9 \<le> n \<and> n \<le> 13) \<or> (28 \<le> n \<and> n \<le> 32))"

definition upper_char :: "char \<Rightarrow> char" where
  "upper_char c =
     (let n = (of_char c :: nat) in if 97 \<le> n \<and> n \<le> 122 then char_of (n - 32) else c)"

definition lower_char :: "char \<Rightarrow> char" where
  "lower_char c =
     (let n = (of_char c :: nat) in if 65 \<le> n \<and> n \<le> 90 then char_of (n + 32) else c)"

definition upper :: "string \<Rightarrow> string" where
  "upper s = map upper_char s"

definition lower :: "string \<Rightarrow> string" where
  "lower s = map lower_char s"

definition strip :: "string \<Rightarrow> string" where
  "strip s = rev (dropWhile isspace (rev (dropWhile isspace s)))"

text \<open>
  \<open>str.split()\<close> without a separator: the maximal runs of non-space characters. \<open>cur\<close>
  is the run being read.
\<close>

fun split_from :: "string \<Rightarrow> string \<Rightarrow> string list" where
  "split_from cur [] = (if cur = [] then [] else [cur])"
| "split_from cur (c # cs) =
     (if isspace c then (if cur = [] then split_from [] cs else cur # split_from [] cs)
      else split_from (cur @ [c]) cs)"

definition split_ws :: "string \<Rightarrow> string list" where
  "split_ws s = split_from [] s"

definition endswith :: "string \<Rightarrow> string \<Rightarrow> bool" where
  "endswith s suffix = (length suffix \<le> length s \<and> drop (length s - length suffix) s = suffix)"

section \<open>Instrument registry (\<open>instrument_db.py\<close>)\<close>

definition normalize_isin :: "builtins \<Rightarrow> json \<Rightarrow> string" where
  "normalize_isin rt isin =
     (if isin = JNull then []
      else concat (split_ws (upper (strip (py_str rt isin)))))"

text \<open>
  \<open>InstrumentDB._by_isin\<close>: a \<open>dict\<close> from normalized identifier to the record stored
  for it. \<open>dict_set d k v\<close> is the assignment \<open>d[k] = v\<close>: an existing key keeps its
  place and takes the new value, a new key goes to the end.
\<close>

type_synonym pydict = "(string \<times> json) list"

type_synonym registry = "(string \<times> pydict) list"

fun dict_set :: "('k \<times> 'v) list \<Rightarrow> 'k \<Rightarrow> 'v \<Rightarrow> ('k \<times> 'v) list" where
  "dict_set [] k v = [(k, v)]"
| "dict_set ((k', v') # kvs) k v =
     (if k' = k then (k, v) # kvs else (k', v') # dict_set kvs k v)"

text \<open>\<open>d.get(k)\<close> and \<open>d.get(k, default)\<close> on a \<open>dict\<close>.\<close>

definition dict_get :: "pydict \<Rightarrow> string \<Rightarrow> json \<Rightarrow> json" where
  "dict_get d k dflt = (case map_of d k of Some v \<Rightarrow> v | None \<Rightarrow> dflt)"

definition isinstance_dict :: "json \<Rightarrow> bool" where
  "isinstance_dict x = (case x of JObj _ \<Rightarrow> True | _ \<Rightarrow> False)"

definition isinstance_list :: "json \<Rightarrow> bool" where
  "isinstance_list x = (case x of JArr _ \<Rightarrow> True | _ \<Rightarrow> False)"

text \<open>Shape A: the loop over \<open>data.items()\<close>.\<close>

fun load_dict_items :: "builtins \<Rightarrow> (string \<times> json) list \<Rightarrow> registry \<Rightarrow> registry" where
  "load_dict_items rt [] by_isin = by_isin"
| "load_dict_items rt ((k, v) # items) by_isin =
     (let norm = normalize_isin rt (JStr k) in
      if norm = [] then load_dict_items rt items by_isin
      else (case v of
              JObj r \<Rightarrow> load_dict_items rt items (dict_set by_isin norm r)
            | _ \<Rightarrow> load_dict_items rt items (dict_set by_isin norm [(''TYPE'', v)])))"

text \<open>
  Shape B: the inner loop takes the value of the first key that lower-cases to
  \<open>isin\<close>, and \<open>None\<close> when there is none.
\<close>

definition isin_value :: "pydict \<Rightarrow> json" where
  "isin_value r =
     (case find (\<lambda>(key, v). lower key = ''isin'') r of
        None \<Rightarrow> JNull
      | Some (key, v) \<Rightarrow> v)"

fun load_list_items :: "builtins \<Rightarrow> json list \<Rightarrow> registry \<Rightarrow> registry" where
  "load_list_items rt [] by_isin = by_isin"
| "load_list_items rt (x # recs) by_isin =
     (case x of
        JObj r \<Rightarrow>
          (let norm = normalize_isin rt (isin_value r) in
           if norm = [] then load_list_items rt recs by_isin
           else load_list_items rt recs (dict_set by_isin norm r))
      | _ \<Rightarrow> load_list_items rt recs by_isin)"

definition load :: "builtins \<Rightarrow> json \<Rightarrow> error + registry" where
  "load rt data =
     (case data of
        JObj items \<Rightarrow> Inr (load_dict_items rt items [])
      | JArr recs \<Rightarrow> Inr (load_list_items rt recs [])
      | _ \<Rightarrow> Inl ValueError)"

text \<open>The type tag as \<open>is_exit_tax\<close> reads it: \<open>rec.get("TYPE") or rec.get("type") or ""\<close>.\<close>

definition type_tag :: "pydict \<Rightarrow> json" where
  "type_tag r = py_or (py_or (dict_get r ''TYPE'' JNull) (dict_get r ''type'' JNull)) (JStr [])"

definition is_exit_tax :: "builtins \<Rightarrow> registry \<Rightarrow> json \<Rightarrow> bool" where
  "is_exit_tax rt by_isin isin =
     (let norm = normalize_isin rt isin in
      if norm = [] then False
      else (case map_of by_isin norm of
              None \<Rightarrow> False
            | Some r \<Rightarrow>
                if r = [] then False
                else (let t = strip (upper (py_str rt (type_tag r)))
                      in t = ''ETF'' \<or> t = ''INDEX'')))"

definition count :: "registry \<Rightarrow> nat" where
  "count by_isin = length by_isin"

definition sample_isins :: "registry \<Rightarrow> int \<Rightarrow> string list" where
  "sample_isins by_isin limit = (if limit \<le> 0 then [] else take (nat limit) (map fst by_isin))"

section \<open>Exit-tax computation (\<open>exit_tax.py\<close>)\<close>

text \<open>
  \<open>datetime.date\<close>: the constructor, which \<open>date.replace\<close> calls with the fields it
  is given and the remaining fields of the receiver, raises \<open>ValueError\<close> unless the
  year is in 1..9999, the month in 1..12 and the day in the month.
\<close>

definition is_leap :: "int \<Rightarrow> bool" where
  "is_leap y = (y mod 4 = 0 \<and> (y mod 100 \<noteq> 0 \<or> y mod 400 = 0))"

definition days_in_month :: "int \<Rightarrow> int \<Rightarrow> int" where
  "days_in_month y m =
     (if m = 2 then (if is_leap y then 29 else 28)
      else if m = 4 \<or> m = 6 \<or> m = 9 \<or> m = 11 then 30
      else 31)"

definition valid_ymd :: "int \<Rightarrow> int \<Rightarrow> int \<Rightarrow> bool" where
  "valid_ymd y m d =
     (1 \<le> y \<and> y \<le> 9999 \<and> 1 \<le> m \<and> m \<le> 12 \<and> 1 \<le> d \<and> d \<le> days_in_month y m)"

definition valid_date :: "date \<Rightarrow> bool" where
  "valid_date d = valid_ymd (year d) (month d) (day d)"

definition date_new :: "int \<Rightarrow> int \<Rightarrow> int \<Rightarrow> error + date" where
  "date_new y m d =
     (if valid_ymd y m d then Inr \<lparr>year = y, month = m, day = d\<rparr> else Inl ValueError)"

definition add_years :: "date \<Rightarrow> int \<Rightarrow> error + date" where
  "add_years d years =
     (case date_new (year d + years) (month d) (day d) of
        Inr r \<Rightarrow> Inr r
      | Inl ValueError \<Rightarrow> date_new (year d + years) 2 28
      | Inl e \<Rightarrow> Inl e)"

definition to_float :: "builtins \<Rightarrow> json \<Rightarrow> real \<Rightarrow> real" where
  "to_float rt x dflt = (case float_of rt x of Some r \<Rightarrow> r | None \<Rightarrow> dflt)"

definition parse_datetime :: "builtins \<Rightarrow> string \<Rightarrow> error + datetime" where
  "parse_datetime rt s0 =
     (let s = strip s0;
          s = (if endswith s ''Z'' then butlast s @ ''+00:00'' else s)
      in case fromisoformat rt s of
           Some dt \<Rightarrow> Inr dt
         | None \<Rightarrow> Inl ValueError)"

record ExitTaxRow =
  ticker :: string
  isin :: string
  name :: string
  currency :: string
  created_at :: datetime
  deemed_disposal_date :: date
  total_cost :: real
  current_value :: real
  unrealised_pl :: real
  taxable_gain_today :: real
  exit_tax_due_today :: real

text \<open>
  The body of the loop for the position \<open>p\<close> at index \<open>i\<close>, in three parts.
  \<open>p.get\<close>, \<open>inst.get\<close> and \<open>wi.get\<close> raise \<open>AttributeError\<close> on a receiver that
  is not a \<open>dict\<close>. \<open>read_created_at\<close> is the reading of \<open>createdAt\<close>, with the clock
  for an empty string; \<open>make_row\<close> is the arithmetic and the construction of the row.
\<close>

definition read_created_at :: "builtins \<Rightarrow> nat \<Rightarrow> pydict \<Rightarrow> error + datetime" where
  "read_created_at rt i pd =
     (let created_at_raw = strip (py_str rt (dict_get pd ''createdAt'' (JStr [])))
      in if created_at_raw \<noteq> [] then parse_datetime rt created_at_raw else Inr (now rt i))"

definition make_row :: "builtins \<Rightarrow> real \<Rightarrow> pydict \<Rightarrow> pydict \<Rightarrow> datetime \<Rightarrow> date \<Rightarrow> ExitTaxRow" where
  "make_row rt exit_tax_rate inst wi created deemed_date =
     (let cost = to_float rt (dict_get wi ''totalCost'' JNull) 0;
          val = to_float rt (dict_get wi ''currentValue'' JNull) 0;
          pl = to_float rt (dict_get wi ''unrealizedProfitLoss'' JNull) (val - cost);
          gain = max (val - cost) 0
      in \<lparr>ticker = py_str rt (dict_get inst ''ticker'' (JStr [])),
          isin = py_str rt (dict_get inst ''isin'' (JStr [])),
          name = py_str rt (dict_get inst ''name'' (JStr [])),
          currency =
            py_str rt
              (py_or (py_or (dict_get wi ''currency'' JNull) (dict_get inst ''currency'' JNull))
                     (JStr [])),
          created_at = created,
          deemed_disposal_date = deemed_date,
          total_cost = cost,
          current_value = val,
          unrealised_pl = pl,
          taxable_gain_today = gain,
          exit_tax_due_today = gain * exit_tax_rate\<rparr>)"

definition exit_tax_row :: "builtins \<Rightarrow> real \<Rightarrow> nat \<Rightarrow> json \<Rightarrow> error + ExitTaxRow" where
  "exit_tax_row rt exit_tax_rate i p =
     (case p of
        JObj pd \<Rightarrow>
          (case py_or (dict_get pd ''instrument'' (JObj [])) (JObj []) of
             JObj inst \<Rightarrow>
               (case py_or (dict_get pd ''walletImpact'' (JObj [])) (JObj []) of
                  JObj wi \<Rightarrow>
                    (case read_created_at rt i pd of
                       Inl e \<Rightarrow> Inl e
                     | Inr created \<Rightarrow>
                         (case add_years (dt_date created) 8 of
                            Inl e \<Rightarrow> Inl e
                          | Inr deemed_date \<Rightarrow>
                              Inr (make_row rt exit_tax_rate inst wi created deemed_date)))
                | _ \<Rightarrow> Inl AttributeError)
           | _ \<Rightarrow> Inl AttributeError)
      | _ \<Rightarrow> Inl AttributeError)"

text \<open>\<open>for p in data\<close>: the loop appends one row per item and stops at the first error.\<close>

fun rows_loop :: "builtins \<Rightarrow> real \<Rightarrow> nat \<Rightarrow> json list \<Rightarrow> ExitTaxRow list \<Rightarrow> error + ExitTaxRow list" where
  "rows_loop rt exit_tax_rate i [] rows = Inr rows"
| "rows_loop rt exit_tax_rate i (p # ps) rows =
     (case exit_tax_row rt exit_tax_rate i p of
        Inl e \<Rightarrow> Inl e
      | Inr r \<Rightarrow> rows_loop rt exit_tax_rate (Suc i) ps (rows @ [r]))"

text \<open>
  What iterating over a decoded value visits: the elements of a \<open>list\<close>, the keys of a
  \<open>dict\<close>, the characters of a \<open>str\<close>; any other value is not iterable.
\<close>

definition iter_json :: "json \<Rightarrow> error + json list" where
  "iter_json data =
     (case data of
        JArr xs \<Rightarrow> Inr xs
      | JObj kvs \<Rightarrow> Inr (map (\<lambda>kv. JStr (fst kv)) kvs)
      | JStr s \<Rightarrow> Inr (map (\<lambda>c. JStr [c]) s)
      | _ \<Rightarrow> Inl TypeError)"

definition compute_exit_tax_from_positions :: "builtins \<Rightarrow> json \<Rightarrow> real \<Rightarrow> error + ExitTaxRow list" where
  "compute_exit_tax_from_positions rt data exit_tax_rate =
     (case iter_json data of
        Inl e \<Rightarrow> Inl e
      | Inr ps \<Rightarrow> rows_loop rt exit_tax_rate 0 ps [])"

section \<open>Valuation snapshot (\<open>snapshot.py\<close>)\<close>

text \<open>
  The fields that \<open>SnapshotRow\<close> has in common with \<open>ExitTaxRow\<close> carry the prefix
  \<open>snap_\<close>, since a field name belongs to one record type.
\<close>

record SnapshotRow =
  snap_ticker :: string
  snap_isin :: string
  snap_name :: string
  snap_currency :: string
  quantity :: real
  avg_price_paid :: "real option"
  current_price :: "real option"
  snap_total_cost :: "real option"
  snap_current_value :: "real option"
  unrealized_pl :: "real option"

text \<open>A cell handed to the CSV writer: a string, a number, or \<open>None\<close>.\<close>

datatype cell = CStr string | CNum real | CNone

definition opt_cell :: "real option \<Rightarrow> cell" where
  "opt_cell x = (case x of Some r \<Rightarrow> CNum r | None \<Rightarrow> CNone)"

text \<open>
  The percentage of one row: \<open>r.total_cost not in (None, 0.0) and r.unrealized_pl is
  not None\<close> guards the division.
\<close>

definition pl_pct :: "SnapshotRow \<Rightarrow> real option" where
  "pl_pct r =
     (if \<not> (snap_total_cost r = None \<or> snap_total_cost r = Some 0) \<and> unrealized_pl r \<noteq> None
      then Some (the (unrealized_pl r) / the (snap_total_cost r))
      else None)"

definition snapshot_header :: "cell list" where
  "snapshot_header =
     map CStr [''ticker'', ''isin'', ''name'', ''currency'', ''quantity'', ''avg_price_paid'',
               ''current_price'', ''total_cost'', ''current_value'', ''unrealized_pl'',
               ''unrealized_pl_pct'']"

definition snapshot_cells :: "SnapshotRow \<Rightarrow> cell list" where
  "snapshot_cells r =
     [CStr (snap_ticker r), CStr (snap_isin r), CStr (snap_name r), CStr (snap_currency r),
      CNum (quantity r), opt_cell (avg_price_paid r), opt_cell (current_price r),
      opt_cell (snap_total_cost r), opt_cell (snap_current_value r), opt_cell (unrealized_pl r),
      opt_cell (pl_pct r)]"

text \<open>The rows that \<open>write_snapshot_csv\<close> hands to the writer, header first.\<close>

definition write_snapshot_csv :: "SnapshotRow list \<Rightarrow> cell list list" where
  "write_snapshot_csv rows = snapshot_header # map snapshot_cells rows"

section \<open>A reference instance of the builtins\<close>

text \<open>
  The worked examples below run the model on a concrete instance of the builtins.
  \<open>iso_datetime\<close> reads the format that the library documents for
  \<open>datetime.fromisoformat\<close> in Python 3.7 to 3.10,
  \<open>YYYY-MM-DD[*HH[:MM[:SS[.fff[fff]]]][+HH:MM[:SS[.ffffff]]]]\<close>, and checks the ranges
  of the fields as the \<open>datetime\<close> constructor does.
\<close>

definition digit_val :: "char \<Rightarrow> nat option" where
  "digit_val c = (let n = (of_char c :: nat) in if 48 \<le> n \<and> n \<le> 57 then Some (n - 48) else None)"

fun digits_val :: "string \<Rightarrow> nat \<Rightarrow> nat option" where
  "digits_val [] acc = Some acc"
| "digits_val (c # cs) acc =
     (case digit_val c of None \<Rightarrow> None | Some v \<Rightarrow> digits_val cs (10 * acc + v))"

text \<open>Exactly \<open>n\<close> digits at the head of \<open>s\<close>: their value and the rest of \<open>s\<close>.\<close>

definition fixed_digits :: "nat \<Rightarrow> string \<Rightarrow> (nat \<times> string) option" where
  "fixed_digits n s =
     (if length s < n then None
      else (case digits_val (take n s) 0 of None \<Rightarrow> None | Some v \<Rightarrow> Some (v, drop n s)))"

text \<open>\<open>sep_then c n s\<close>: the separator \<open>c\<close> followed by \<open>n\<close> digits.\<close>

definition sep_then :: "char \<Rightarrow> nat \<Rightarrow> string \<Rightarrow> (nat \<times> string) option" where
  "sep_then c n s = (if s \<noteq> [] \<and> hd s = c then fixed_digits n (tl s) else None)"

definition iso_date :: "string \<Rightarrow> date option" where
  "iso_date s =
     (case fixed_digits 4 s of
        None \<Rightarrow> None
      | Some (y, s1) \<Rightarrow>
          (case sep_then CHR ''-'' 2 s1 of
             None \<Rightarrow> None
           | Some (m, s2) \<Rightarrow>
               (case sep_then CHR ''-'' 2 s2 of
                  None \<Rightarrow> None
                | Some (d, s3) \<Rightarrow>
                    if s3 = [] \<and> valid_ymd (int y) (int m) (int d)
                    then Some \<lparr>year = int y, month = int m, day = int d\<rparr>
                    else None)))"

text \<open>\<open>HH[:MM[:SS[.fff[fff]]]]\<close> as hours, minutes, seconds and microseconds.\<close>

definition iso_fraction :: "string \<Rightarrow> nat option" where
  "iso_fraction s =
     (if s = [] then Some 0
      else if hd s \<noteq> CHR ''.'' then None
      else if length (tl s) = 3 then map_option (\<lambda>v. v * 1000) (digits_val (tl s) 0)
      else if length (tl s) = 6 then digits_val (tl s) 0
      else None)"

definition iso_hms :: "string \<Rightarrow> (nat \<times> nat \<times> nat \<times> nat) option" where
  "iso_hms s =
     (case fixed_digits 2 s of
        None \<Rightarrow> None
      | Some (h, s1) \<Rightarrow>
          if s1 = [] then Some (h, 0, 0, 0)
          else (case sep_then CHR '':'' 2 s1 of
                  None \<Rightarrow> None
                | Some (m, s2) \<Rightarrow>
                    if s2 = [] then Some (h, m, 0, 0)
                    else (case sep_then CHR '':'' 2 s2 of
                            None \<Rightarrow> None
                          | Some (sec, s3) \<Rightarrow>
                              (case iso_fraction s3 of
                                 None \<Rightarrow> None
                               | Some us \<Rightarrow> Some (h, m, sec, us)))))"

text \<open>
  The offset \<open>HH:MM[:SS[.ffffff]]\<close> after the sign, in microseconds; it must be
  strictly less than a day.
\<close>

definition iso_offset :: "string \<Rightarrow> int option" where
  "iso_offset s =
     (if length s = 5 \<or> length s = 8 \<or> length s = 15 then
        (case iso_hms s of
           None \<Rightarrow> None
         | Some (h, m, sec, us) \<Rightarrow>
             (let off = ((int h * 60 + int m) * 60 + int sec) * 1000000 + int us
              in if off < 86400000000 then Some off else None))
      else None)"

definition is_sign :: "char \<Rightarrow> bool" where
  "is_sign c = (c = CHR ''+'' \<or> c = CHR ''-'')"

definition iso_time :: "string \<Rightarrow> ((nat \<times> nat \<times> nat \<times> nat) \<times> int option) option" where
  "iso_time s =
     (let clock = takeWhile (\<lambda>c. \<not> is_sign c) s;
          rest = dropWhile (\<lambda>c. \<not> is_sign c) s
      in case iso_hms clock of
           None \<Rightarrow> None
         | Some (h, m, sec, us) \<Rightarrow>
             if \<not> (h < 24 \<and> m < 60 \<and> sec < 60) then None
             else if rest = [] then Some ((h, m, sec, us), None)
             else (case iso_offset (tl rest) of
                     None \<Rightarrow> None
                   | Some off \<Rightarrow>
                       Some ((h, m, sec, us), Some (if hd rest = CHR ''-'' then - off else off))))"

definition iso_datetime :: "string \<Rightarrow> datetime option" where
  "iso_datetime s =
     (case iso_date (take 10 s) of
        None \<Rightarrow> None
      | Some d \<Rightarrow>
          if length s = 10
          then Some \<lparr>dt_date = d, hour = 0, minute = 0, second = 0, microsecond = 0,
                     utcoffset = None\<rparr>
          else (case iso_time (drop 11 s) of
                  None \<Rightarrow> None
                | Some ((h, m, sec, us), off) \<Rightarrow>
                    Some \<lparr>dt_date = d, hour = h, minute = m, second = sec, microsecond = us,
                          utcoffset = off\<rparr>))"

text \<open>
  \<open>str\<close> of \<open>None\<close> and of the booleans, and \<open>float\<close> of a number or a boolean, as
  Python gives them; \<open>float\<close> raises on \<open>None\<close> and on a container. The renderings of
  numbers and containers and the parsing of numeric strings are not reproduced (the
  empty string, and \<open>None\<close>): the examples do not reach them. The clock reads noon of
  4 November 2026 at every call.
\<close>

definition ref_str_other :: "json \<Rightarrow> string" where
  "ref_str_other x =
     (case x of
        JNull \<Rightarrow> ''None''
      | JBool b \<Rightarrow> (if b then ''True'' else ''False'')
      | _ \<Rightarrow> [])"

definition ref_float_of :: "json \<Rightarrow> real option" where
  "ref_float_of x =
     (case x of
        JInt i \<Rightarrow> Some (of_int i)
      | JFloat r \<Rightarrow> Some r
      | JBool b \<Rightarrow> Some (if b then 1 else 0)
      | _ \<Rightarrow> None)"

definition ref_now :: "nat \<Rightarrow> datetime" where
  "ref_now i =
     \<lparr>dt_date = \<lparr>year = 2026, month = 11, day = 4\<rparr>, hour = 12, minute = 0, second = 0,
      microsecond = 0, utcoffset = None\<rparr>"

definition ref_builtins :: builtins where
  "ref_builtins =
     \<lparr>str_other = ref_str_other, float_of = ref_float_of, fromisoformat = iso_datetime,
      now = ref_now\<rparr>"

section \<open>Notions that the properties are stated with\<close>

text \<open>
  The deemed-disposal rule as the specification words it: the year advanced by 8,
  and 29 February moved to 28 February when the target year is not a leap year.
\<close>

definition deemed_date_rule :: "date \<Rightarrow> date" where
  "deemed_date_rule d =
     (if month d = 2 \<and> day d = 29 \<and> \<not> is_leap (year d + 8)
      then \<lparr>year = year d + 8, month = 2, day = 28\<rparr>
      else \<lparr>year = year d + 8, month = month d, day = day d\<rparr>)"

text \<open>
  A position has the expected shape when it is an object whose \<open>instrument\<close> and
  \<open>walletImpact\<close> are objects, are missing, or are false values.
\<close>

definition position_shape :: "json \<Rightarrow> bool" where
  "position_shape p =
     (case p of
        JObj pd \<Rightarrow>
          isinstance_dict (py_or (dict_get pd ''instrument'' (JObj [])) (JObj [])) \<and>
          isinstance_dict (py_or (dict_get pd ''walletImpact'' (JObj [])) (JObj []))
      | _ \<Rightarrow> False)"

text \<open>The \<open>createdAt\<close> string of a position, stripped, as the loop reads it.\<close>

definition created_at_raw :: "builtins \<Rightarrow> json \<Rightarrow> string" where
  "created_at_raw rt p =
     (case p of
        JObj pd \<Rightarrow> strip (py_str rt (dict_get pd ''createdAt'' (JStr [])))
      | _ \<Rightarrow> [])"

text \<open>A timestamp string is parseable when \<open>_parse_datetime\<close> returns.\<close>

definition parseable :: "builtins \<Rightarrow> string \<Rightarrow> bool" where
  "parseable rt s = (case parse_datetime rt s of Inr dt \<Rightarrow> True | Inl e \<Rightarrow> False)"




text \<open>
  The date that the deemed-disposal date of the position at index \<open>i\<close> is computed
  from: the date part of the parsed timestamp, or of the clock when the string is
  empty; \<open>None\<close> when the string is not accepted.
\<close>

definition source_date :: "builtins \<Rightarrow> nat \<Rightarrow> json \<Rightarrow> date option" where
  "source_date rt i p =
     (if created_at_raw rt p = [] then Some (dt_date (now rt i))
      else (case parse_datetime rt (created_at_raw rt p) of
              Inr dt \<Rightarrow> Some (dt_date dt)
            | Inl e \<Rightarrow> None))"

text \<open>A source date is in reach when it is a calendar date no later than year 9991.\<close>

definition in_reach :: "date option \<Rightarrow> bool" where
  "in_reach x = (case x of Some d \<Rightarrow> valid_date d \<and> year d \<le> 9991 | None \<Rightarrow> False)"

definition dates_in_reach :: "builtins \<Rightarrow> json list \<Rightarrow> bool" where
  "dates_in_reach rt ps = list_all (\<lambda>jp. in_reach (source_date rt (fst jp) (snd jp))) (enumerate 0 ps)"



text \<open>
  The wallet-impact descriptor of a position, and the cost and the value that the
  computation reads from it: 0 when the entry is missing or is not a number.
\<close>

definition wallet_impact :: "json \<Rightarrow> pydict" where
  "wallet_impact p =
     (case p of
        JObj pd \<Rightarrow>
          (case py_or (dict_get pd ''walletImpact'' (JObj [])) (JObj []) of
             JObj wi \<Rightarrow> wi
           | _ \<Rightarrow> [])
      | _ \<Rightarrow> [])"

definition position_cost :: "builtins \<Rightarrow> json \<Rightarrow> real" where
  "position_cost rt p = to_float rt (dict_get (wallet_impact p) ''totalCost'' JNull) 0"

definition position_value :: "builtins \<Rightarrow> json \<Rightarrow> real" where
  "position_value rt p = to_float rt (dict_get (wallet_impact p) ''currentValue'' JNull) 0"

text \<open>A registry key is in order when it is non-empty and normalization keeps it.\<close>

definition key_ok :: "builtins \<Rightarrow> string \<Rightarrow> bool" where
  "key_ok rt k = (k \<noteq> [] \<and> normalize_isin rt (JStr k) = k)"

text \<open>
  The type tag of a stored record as a string, and eligibility as the specification words it:
  the identifier is registered and the tag, upper-cased, is exactly \<open>ETF\<close> or
  \<open>INDEX\<close>.
\<close>

definition tag_string :: "builtins \<Rightarrow> pydict \<Rightarrow> string" where
  "tag_string rt r = py_str rt (type_tag r)"

definition eligible_exact :: "builtins \<Rightarrow> registry \<Rightarrow> json \<Rightarrow> bool" where
  "eligible_exact rt by_isin x =
     (case map_of by_isin (normalize_isin rt x) of
        None \<Rightarrow> False
      | Some r \<Rightarrow> upper (tag_string rt r) = ''ETF'' \<or> upper (tag_string rt r) = ''INDEX'')"

text \<open>A tag names an exit-tax type when, upper-cased and stripped, it is \<open>ETF\<close> or \<open>INDEX\<close>.\<close>

definition exit_tax_tag :: "string \<Rightarrow> bool" where
  "exit_tax_tag t = (strip (upper t) = ''ETF'' \<or> strip (upper t) = ''INDEX'')"

text \<open>
  Sources that encode a list of (identifier, type) pairs. In Shape A the identifier is
  the key, and the value is the bare type string or a record that holds it under
  \<open>TYPE\<close> or \<open>type\<close>. In Shape B each record holds the identifier under a key that
  lower-cases to \<open>isin\<close>, and the type under \<open>TYPE\<close> or \<open>type\<close>.
\<close>

datatype tag_key = Upper_TYPE | Lower_type

definition tag_key_name :: "tag_key \<Rightarrow> string" where
  "tag_key_name k = (case k of Upper_TYPE \<Rightarrow> ''TYPE'' | Lower_type \<Rightarrow> ''type'')"

definition shape_a_entry :: "tag_key option \<times> string \<times> string \<Rightarrow> string \<times> json" where
  "shape_a_entry e =
     (case e of
        (None, i, t) \<Rightarrow> (i, JStr t)
      | (Some k, i, t) \<Rightarrow> (i, JObj [(tag_key_name k, JStr t)]))"

definition shape_a :: "(tag_key option \<times> string \<times> string) list \<Rightarrow> json" where
  "shape_a es = JObj (map shape_a_entry es)"

definition shape_b_record :: "(string \<times> tag_key) \<times> string \<times> string \<Rightarrow> json" where
  "shape_b_record e =
     (case e of ((key, k), i, t) \<Rightarrow> JObj [(key, JStr i), (tag_key_name k, JStr t)])"

definition shape_b :: "((string \<times> tag_key) \<times> string \<times> string) list \<Rightarrow> json" where
  "shape_b es = JArr (map shape_b_record es)"

text \<open>No normalized identifier is given two different types.\<close>

definition single_typed :: "builtins \<Rightarrow> (string \<times> string) set \<Rightarrow> bool" where
  "single_typed rt S =
     (\<forall>p \<in> S. \<forall>q \<in> S.
        normalize_isin rt (JStr (fst p)) = normalize_isin rt (JStr (fst q)) \<longrightarrow> snd p = snd q)"

section \<open>Example inputs\<close>

text \<open>
  Two holdings: a fund bought in May 2020 that gained 500, and a share whose
  \<open>createdAt\<close> is empty and that lost 20.
\<close>

definition example_positions :: "json list" where
  "example_positions =
     [JObj [(''instrument'',
               JObj [(''ticker'', JStr ''VWCE''), (''isin'', JStr ''IE00BK5BQT80''),
                     (''name'', JStr ''Vanguard FTSE All-World''), (''currency'', JStr ''EUR'')]),
            (''walletImpact'',
               JObj [(''currency'', JStr ''EUR''), (''totalCost'', JInt 1000),
                     (''currentValue'', JInt 1500)]),
            (''createdAt'', JStr ''2020-05-11T17:55:09.000Z''),
            (''quantity'', JInt 10)],
      JObj [(''instrument'',
               JObj [(''ticker'', JStr ''AAPL''), (''isin'', JStr ''US0378331005''),
                     (''name'', JStr ''Apple''), (''currency'', JStr ''USD'')]),
            (''walletImpact'',
               JObj [(''totalCost'', JInt 100), (''currentValue'', JInt 80),
                     (''unrealizedProfitLoss'', JInt (- 20))]),
            (''createdAt'', JStr [])]]"

definition example_rows :: "ExitTaxRow list" where
  "example_rows =
     [\<lparr>ticker = ''VWCE'', isin = ''IE00BK5BQT80'', name = ''Vanguard FTSE All-World'',
       currency = ''EUR'',
       created_at = \<lparr>dt_date = \<lparr>year = 2020, month = 5, day = 11\<rparr>, hour = 17, minute = 55,
                      second = 9, microsecond = 0, utcoffset = Some 0\<rparr>,
       deemed_disposal_date = \<lparr>year = 2028, month = 5, day = 11\<rparr>,
       total_cost = 1000, current_value = 1500, unrealised_pl = 500,
       taxable_gain_today = 500, exit_tax_due_today = 190\<rparr>,
      \<lparr>ticker = ''AAPL'', isin = ''US0378331005'', name = ''Apple'', currency = ''USD'',
       created_at = ref_now 1,
       deemed_disposal_date = \<lparr>year = 2034, month = 11, day = 4\<rparr>,
       total_cost = 100, current_value = 80, unrealised_pl = - 20,
       taxable_gain_today = 0, exit_tax_due_today = 0\<rparr>]"


definition late_position :: json where
  "late_position =
     JObj [(''instrument'', JObj [(''ticker'', JStr ''LATE'')]),
           (''createdAt'', JStr ''9995-06-30T12:00:00+01:00'')]"




text \<open>The two registry sources of the repository's tests.\<close>

definition example_dict_source :: json where
  "example_dict_source =
     JObj [(''ie00  b3'', JObj [(''TYPE'', JStr ''ETF'')]),
           (''GB00 0000'', JObj [(''TYPE'', JStr ''EQUITY'')])]"

definition example_list_source :: json where
  "example_list_source =
     JArr [JObj [(''isin'', JStr '' ie00b3 ''), (''type'', JStr ''index'')],
           JObj [(''ISIN'', JStr ''GB00 0000''), (''TYPE'', JStr ''Equity'')],
           JObj [(''foo'', JStr ''bar'')]]"

definition example_list_registry :: registry where
  "example_list_registry =
     [(''IE00B3'', [(''isin'', JStr '' ie00b3 ''), (''type'', JStr ''index'')]),
      (''GB000000'', [(''ISIN'', JStr ''GB00 0000''), (''TYPE'', JStr ''Equity'')])]"

text \<open>A source whose type tag carries a trailing space.\<close>

definition padded_source :: json where
  "padded_source = JObj [(''IE00B3'', JStr ''etf '')]"

definition padded_registry :: registry where
  "padded_registry = [(''IE00B3'', [(''TYPE'', JStr ''etf '')])]"

text \<open>
  The same two pairs in both shapes, in opposite orders; the identifiers differ in
  case only.
\<close>

definition clash_a :: "(tag_key option \<times> string \<times> string) list" where
  "clash_a = [(None, ''ie00'', ''ETF''), (None, ''IE00'', ''EQUITY'')]"

definition clash_b :: "((string \<times> tag_key) \<times> string \<times> string) list" where
  "clash_b = [((''isin'', Lower_type), ''IE00'', ''EQUITY''), ((''isin'', Lower_type), ''ie00'', ''ETF'')]"

text \<open>Three pairs with distinct identifiers, in both shapes and in different orders.\<close>

definition funds_a :: "(tag_key option \<times> string \<times> string) list" where
  "funds_a =
     [(None, ''ie00 b3'', ''ETF''), (Some Upper_TYPE, ''GB00 0000'', ''EQUITY''),
      (Some Lower_type, ''LU0001'', ''index'')]"

definition funds_b :: "((string \<times> tag_key) \<times> string \<times> string) list" where
  "funds_b =
     [((''ISIN'', Upper_TYPE), ''LU0001'', ''index''), ((''isin'', Lower_type), ''ie00 b3'', ''ETF''),
      ((''Isin'', Lower_type), ''GB00 0000'', ''EQUITY'')]"

section \<open>Properties\<close>

subsection \<open>String methods\<close>

lemma concat_split_from: "concat (split_from cur s) = cur @ filter (\<lambda>c. \<not> isspace c) s"
  by (induction s arbitrary: cur) auto

lemma concat_split_ws: "concat (split_ws s) = filter (\<lambda>c. \<not> isspace c) s"
  by (simp add: split_ws_def concat_split_from)

lemma filter_dropWhile_same: "filter (\<lambda>c. \<not> P c) (dropWhile P s) = filter (\<lambda>c. \<not> P c) s"
  by (induction s) auto

lemma filter_strip: "filter (\<lambda>c. \<not> isspace c) (strip s) = filter (\<lambda>c. \<not> isspace c) s"
proof -
  have "filter (\<lambda>c. \<not> isspace c) (strip s)
      = rev (filter (\<lambda>c. \<not> isspace c) (dropWhile isspace (rev (dropWhile isspace s))))"
    by (simp add: strip_def rev_filter)
  also have "\<dots> = rev (filter (\<lambda>c. \<not> isspace c) (rev (dropWhile isspace s)))"
    by (simp only: filter_dropWhile_same)
  also have "\<dots> = filter (\<lambda>c. \<not> isspace c) (dropWhile isspace s)"
    by (simp add: rev_filter)
  finally show ?thesis
    by (simp only: filter_dropWhile_same)
qed

lemma isspace_upper_char: "isspace (upper_char c) = isspace c"
  by (auto simp: isspace_def upper_char_def Let_def)

lemma upper_char_idem: "upper_char (upper_char c) = upper_char c"
  by (auto simp: upper_char_def Let_def)

lemma filter_upper: "filter (\<lambda>c. \<not> isspace c) (upper s) = upper (filter (\<lambda>c. \<not> isspace c) s)"
  by (induction s) (auto simp: upper_def isspace_upper_char)

lemma py_str_JStr: "py_str rt (JStr s) = s"
  by (simp add: py_str_def)

lemma normalize_isin_str:
  "normalize_isin rt (JStr s) = upper (filter (\<lambda>c. \<not> isspace c) s)"
  by (simp add: normalize_isin_def py_str_def concat_split_ws filter_upper filter_strip)

lemma normalize_isin_any:
  "normalize_isin rt x =
     (if x = JNull then [] else upper (filter (\<lambda>c. \<not> isspace c) (py_str rt x)))"
  by (simp add: normalize_isin_def concat_split_ws filter_upper filter_strip)

lemma upper_idem: "upper (upper s) = upper s"
  by (simp add: upper_def upper_char_idem)

lemma filter_nospace_idem:
  "filter (\<lambda>c. \<not> isspace c) (upper (filter (\<lambda>c. \<not> isspace c) s)) = upper (filter (\<lambda>c. \<not> isspace c) s)"
  by (simp add: filter_upper)

lemma normalize_isin_fixed: "normalize_isin rt (JStr (normalize_isin rt x)) = normalize_isin rt x"
proof (cases "x = JNull")
  case True
  then show ?thesis
    by (simp add: normalize_isin_def py_str_JStr split_ws_def strip_def upper_def)
next
  case False
  then show ?thesis
    by (simp add: normalize_isin_any py_str_JStr filter_nospace_idem upper_idem)
qed

text \<open>
  C8: normalization is total and idempotent. It upper-cases its argument and removes
  every whitespace character, and it answers the empty string for \<open>None\<close> and for the
  empty string.
\<close>

theorem normalize_isin_idempotent:
  "normalize_isin rt (JStr (normalize_isin rt x)) = normalize_isin rt x
   \<and> normalize_isin rt (JStr s) = upper (filter (\<lambda>c. \<not> isspace c) s)
   \<and> normalize_isin rt JNull = []
   \<and> normalize_isin rt (JStr []) = []"
proof (intro conjI)
  show "normalize_isin rt (JStr (normalize_isin rt x)) = normalize_isin rt x"
    by (rule normalize_isin_fixed)
  show "normalize_isin rt (JStr s) = upper (filter (\<lambda>c. \<not> isspace c) s)"
    by (rule normalize_isin_str)
  show "normalize_isin rt JNull = []"
    by (simp add: normalize_isin_def)
  show "normalize_isin rt (JStr []) = []"
    by (simp add: normalize_isin_str upper_def)
qed

text \<open>The identifiers of the repository's tests.\<close>

theorem normalize_isin_idempotent_witness:
  "normalize_isin ref_builtins (JStr '' ie00  b3 '') = ''IE00B3''
   \<and> normalize_isin ref_builtins (JStr ''IE00B3'') = ''IE00B3''"
proof -
  have u: "upper (filter (\<lambda>c. \<not> isspace c) '' ie00  b3 '') = ''IE00B3''"
    by code_simp
  note t = normalize_isin_idempotent [of ref_builtins "JStr '' ie00  b3 ''" "'' ie00  b3 ''"]
  from t have "normalize_isin ref_builtins (JStr '' ie00  b3 '')
                 = upper (filter (\<lambda>c. \<not> isspace c) '' ie00  b3 '')"
    by blast
  from this u have a: "normalize_isin ref_builtins (JStr '' ie00  b3 '') = ''IE00B3''"
    by (rule trans)
  from t have "normalize_isin ref_builtins (JStr (normalize_isin ref_builtins (JStr '' ie00  b3 '')))
                 = normalize_isin ref_builtins (JStr '' ie00  b3 '')"
    by blast
  then have "normalize_isin ref_builtins (JStr ''IE00B3'') = ''IE00B3''"
    unfolding a .
  with a show ?thesis by blast
qed

subsection \<open>The registry built by \<open>load\<close>\<close>

lemma map_of_dict_set: "map_of (dict_set d k v) = (map_of d)(k \<mapsto> v)"
  by (induction d k v rule: dict_set.induct) auto

lemma keys_dict_set: "fst ` set (dict_set d k v) = insert k (fst ` set d)"
  by (induction d k v rule: dict_set.induct) auto

lemma distinct_dict_set: "distinct (map fst d) \<Longrightarrow> distinct (map fst (dict_set d k v))"
  by (induction d k v rule: dict_set.induct) (auto simp: keys_dict_set)

lemma key_ok_normalize: "normalize_isin rt x \<noteq> [] \<Longrightarrow> key_ok rt (normalize_isin rt x)"
  by (simp add: key_ok_def normalize_isin_fixed)

lemma load_dict_items_keys:
  "list_all (key_ok rt) (map fst acc) \<Longrightarrow> list_all (key_ok rt) (map fst (load_dict_items rt items acc))"
proof (induction rt items acc rule: load_dict_items.induct)
  case (1 rt by_isin)
  then show ?case by simp
next
  case (2 rt k v items by_isin)
  show ?case
  proof (cases "normalize_isin rt (JStr k) = []")
    case True
    with 2 show ?thesis by simp
  next
    case False
    have ok: "list_all (key_ok rt) (map fst (dict_set by_isin (normalize_isin rt (JStr k)) r))" for r
      using "2.prems" key_ok_normalize [OF False]
      by (auto simp: list_all_iff keys_dict_set)
    show ?thesis
      using False 2 ok by (cases v) (simp_all add: Let_def)
  qed
qed

lemma load_list_items_keys:
  "list_all (key_ok rt) (map fst acc) \<Longrightarrow> list_all (key_ok rt) (map fst (load_list_items rt recs acc))"
proof (induction rt recs acc rule: load_list_items.induct)
  case (1 rt by_isin)
  then show ?case by simp
next
  case (2 rt x recs by_isin)
  show ?case
  proof (cases x)
    case (JObj r)
    show ?thesis
    proof (cases "normalize_isin rt (isin_value r) = []")
      case True
      with 2 JObj show ?thesis by simp
    next
      case False
      have "list_all (key_ok rt) (map fst (dict_set by_isin (normalize_isin rt (isin_value r)) r))"
        using "2.prems" key_ok_normalize [OF False]
        by (auto simp: list_all_iff keys_dict_set)
      with 2 JObj False show ?thesis by (simp add: Let_def)
    qed
  qed (use 2 in simp_all)
qed

lemma load_keys: "load rt data = Inr reg \<Longrightarrow> list_all (key_ok rt) (map fst reg)"
  by (cases data) (auto simp: load_def load_dict_items_keys load_list_items_keys)

text \<open>
  C10: every key of a registry that \<open>load\<close> returns, from either accepted shape, is
  non-empty and is left unchanged by normalization.
\<close>

theorem load_keys_normalized:
  assumes "load rt data = Inr reg" and "k \<in> fst ` set reg"
  shows "k \<noteq> [] \<and> normalize_isin rt (JStr k) = k"
  using load_keys [OF assms(1)] assms(2) by (auto simp: list_all_iff key_ok_def)

subsection \<open>Dates and the row of one position\<close>

lemma add_years_in_range:
  assumes "valid_date d" and "year d \<le> 9991"
  shows "add_years d 8 = Inr (deemed_date_rule d)"
proof (cases "valid_ymd (year d + 8) (month d) (day d)")
  case True
  then have "\<not> (month d = 2 \<and> day d = 29 \<and> \<not> is_leap (year d + 8))"
    by (auto simp: valid_ymd_def days_in_month_def split: if_splits)
  with True show ?thesis
    by (simp add: add_years_def date_new_def deemed_date_rule_def)
next
  case False
  with assms have feb: "month d = 2 \<and> day d = 29 \<and> \<not> is_leap (year d + 8)"
    by (auto simp: valid_date_def valid_ymd_def days_in_month_def split: if_splits)
  have "valid_ymd (year d + 8) 2 28"
    using assms by (simp add: valid_date_def valid_ymd_def days_in_month_def)
  with False feb show ?thesis
    by (simp add: add_years_def date_new_def deemed_date_rule_def)
qed

lemma add_years_beyond: "9991 < year d \<Longrightarrow> add_years d 8 = Inl ValueError"
  by (simp add: add_years_def date_new_def valid_ymd_def)

lemma add_years_Inr_rule:
  assumes "valid_date d" and "add_years d 8 = Inr r"
  shows "r = deemed_date_rule d"
proof (cases "year d \<le> 9991")
  case True
  with assms show ?thesis by (simp add: add_years_in_range)
next
  case False
  with assms(2) show ?thesis by (simp add: add_years_beyond)
qed




lemma make_row_fields:
  "created_at (make_row rt rate inst wi created deemed) = created"
  "deemed_disposal_date (make_row rt rate inst wi created deemed) = deemed"
  "taxable_gain_today (make_row rt rate inst wi created deemed) =
     max (current_value (make_row rt rate inst wi created deemed)
          - total_cost (make_row rt rate inst wi created deemed)) 0"
  "exit_tax_due_today (make_row rt rate inst wi created deemed) =
     taxable_gain_today (make_row rt rate inst wi created deemed) * rate"
  by (simp_all add: make_row_def Let_def)

text \<open>The row of a position of the expected shape, and the error of any other.\<close>

lemma exit_tax_row_no_shape: "\<not> position_shape p \<Longrightarrow> exit_tax_row rt rate i p = Inl AttributeError"
proof (cases p)
  case (JObj pd)
  assume ns: "\<not> position_shape p"
  show ?thesis
  proof (cases "py_or (dict_get pd ''instrument'' (JObj [])) (JObj [])")
    case inst: (JObj instd)
    with ns JObj have "\<not> isinstance_dict (py_or (dict_get pd ''walletImpact'' (JObj [])) (JObj []))"
      by (simp add: position_shape_def isinstance_dict_def)
    then show ?thesis using JObj inst
      by (cases "py_or (dict_get pd ''walletImpact'' (JObj [])) (JObj [])")
         (simp_all add: exit_tax_row_def isinstance_dict_def)
  qed (simp_all add: exit_tax_row_def JObj)
qed (simp_all add: exit_tax_row_def)

lemma source_date_read:
  "source_date rt i (JObj pd) =
     (case read_created_at rt i pd of Inr dt \<Rightarrow> Some (dt_date dt) | Inl e \<Rightarrow> None)"
  by (simp add: source_date_def created_at_raw_def read_created_at_def Let_def)


lemma position_shapeE:
  assumes "position_shape p"
  obtains pd inst wi where "p = JObj pd"
    and "py_or (dict_get pd ''instrument'' (JObj [])) (JObj []) = JObj inst"
    and "py_or (dict_get pd ''walletImpact'' (JObj [])) (JObj []) = JObj wi"
proof (cases p)
  case (JObj pd)
  with assms have a: "isinstance_dict (py_or (dict_get pd ''instrument'' (JObj [])) (JObj []))"
    and b: "isinstance_dict (py_or (dict_get pd ''walletImpact'' (JObj [])) (JObj []))"
    by (simp_all add: position_shape_def)
  from a obtain inst where "py_or (dict_get pd ''instrument'' (JObj [])) (JObj []) = JObj inst"
    by (cases "py_or (dict_get pd ''instrument'' (JObj [])) (JObj [])") (simp_all add: isinstance_dict_def)
  moreover from b obtain wi where "py_or (dict_get pd ''walletImpact'' (JObj [])) (JObj []) = JObj wi"
    by (cases "py_or (dict_get pd ''walletImpact'' (JObj [])) (JObj [])") (simp_all add: isinstance_dict_def)
  ultimately show ?thesis using that JObj by blast
qed (use assms in \<open>simp_all add: position_shape_def\<close>)

lemma exit_tax_row_Inr:
  assumes "exit_tax_row rt rate i p = Inr r"
  shows "position_shape p"
    and "source_date rt i p = Some (dt_date (created_at r))"
    and "add_years (dt_date (created_at r)) 8 = Inr (deemed_disposal_date r)"
    and "taxable_gain_today r = max (current_value r - total_cost r) 0"
    and "exit_tax_due_today r = taxable_gain_today r * rate"
proof -
  show sh: "position_shape p"
    using assms exit_tax_row_no_shape [of p rt rate i] by auto
  from sh obtain pd inst wi where p: "p = JObj pd"
    and i: "py_or (dict_get pd ''instrument'' (JObj [])) (JObj []) = JObj inst"
    and w: "py_or (dict_get pd ''walletImpact'' (JObj [])) (JObj []) = JObj wi"
    by (rule position_shapeE)
  from assms obtain created deemed where c: "read_created_at rt i pd = Inr created"
    and d: "add_years (dt_date created) 8 = Inr deemed"
    and r: "r = make_row rt rate inst wi created deemed"
    by (auto simp: exit_tax_row_def p i w split: sum.splits)
  show "source_date rt i p = Some (dt_date (created_at r))"
    by (simp add: p source_date_read c r make_row_fields)
  show "add_years (dt_date (created_at r)) 8 = Inr (deemed_disposal_date r)"
    by (simp add: r make_row_fields d)
  show "taxable_gain_today r = max (current_value r - total_cost r) 0"
    unfolding r by (rule make_row_fields)
  show "exit_tax_due_today r = taxable_gain_today r * rate"
    unfolding r by (rule make_row_fields)
qed


lemma exit_tax_row_succeeds:
  assumes "position_shape p" and "source_date rt i p = Some d" and "add_years d 8 = Inr dd"
  shows "\<exists>r. exit_tax_row rt rate i p = Inr r"
proof -
  from assms(1) obtain pd inst wi where p: "p = JObj pd"
    and i: "py_or (dict_get pd ''instrument'' (JObj [])) (JObj []) = JObj inst"
    and w: "py_or (dict_get pd ''walletImpact'' (JObj [])) (JObj []) = JObj wi"
    by (rule position_shapeE)
  from assms(2,3) show ?thesis
    by (auto simp: exit_tax_row_def p i w source_date_read split: sum.splits)
qed

subsection \<open>The loop over the positions\<close>


lemma rows_loop_Inr:
  "(rows_loop rt rate i ps acc = Inr rows) =
   (\<exists>rs. rows = acc @ rs \<and>
      list_all2 (\<lambda>jp r. exit_tax_row rt rate (fst jp) (snd jp) = Inr r) (enumerate i ps) rs)"
proof (induction ps arbitrary: i acc)
  case Nil
  then show ?case by auto
next
  case (Cons p ps)
  show ?case
  proof (cases "exit_tax_row rt rate i p")
    case (Inl e)
    then show ?thesis by (auto simp: list_all2_Cons1)
  next
    case (Inr r)
    then show ?thesis by (auto simp: Cons.IH list_all2_Cons1)
  qed
qed



lemma rows_loop_succeeds:
  "list_all (\<lambda>jp. \<exists>r. exit_tax_row rt rate (fst jp) (snd jp) = Inr r) (enumerate i ps) \<Longrightarrow>
   \<exists>rows. rows_loop rt rate i ps acc = Inr rows"
proof (induction ps arbitrary: i acc)
  case Nil
  then show ?case by simp
next
  case (Cons p ps)
  then show ?case by (cases "exit_tax_row rt rate i p") auto
qed

lemma rows_loop_nth:
  assumes "rows_loop rt rate 0 ps [] = Inr rows"
  shows "length rows = length ps"
    and "j < length ps \<Longrightarrow> exit_tax_row rt rate j (ps ! j) = Inr (rows ! j)"
proof -
  from assms have l: "list_all2 (\<lambda>jp r. exit_tax_row rt rate (fst jp) (snd jp) = Inr r) (enumerate 0 ps) rows"
    by (simp add: rows_loop_Inr)
  then show "length rows = length ps"
    by (simp add: list_all2_conv_all_nth)
  show "exit_tax_row rt rate j (ps ! j) = Inr (rows ! j)" if "j < length ps"
    using l that by (auto simp: list_all2_conv_all_nth nth_enumerate_eq)
qed

lemma rows_loop_member:
  assumes "rows_loop rt rate i ps [] = Inr rows" and "r \<in> set rows"
  shows "\<exists>j p. exit_tax_row rt rate j p = Inr r"
proof -
  from assms(1) have l: "list_all2 (\<lambda>jp r. exit_tax_row rt rate (fst jp) (snd jp) = Inr r) (enumerate i ps) rows"
    by (simp add: rows_loop_Inr)
  from assms(2) obtain n where n: "n < length rows" and r: "rows ! n = r"
    by (auto simp: in_set_conv_nth)
  from n have "n < length (enumerate i ps)"
    using list_all2_lengthD [OF l] by simp
  with l have "exit_tax_row rt rate (fst (enumerate i ps ! n)) (snd (enumerate i ps ! n)) = Inr (rows ! n)"
    by (rule list_all2_nthD)
  with r show ?thesis by blast
qed

lemma exit_tax_row_rate_free:
  assumes "exit_tax_row rt rate i p = Inr r"
  shows "\<exists>r'. exit_tax_row rt rate' i p = Inr r'"
  using exit_tax_row_Inr(1-3) [OF assms] by (rule exit_tax_row_succeeds)

lemma rows_loop_rate_free:
  assumes "rows_loop rt rate i ps [] = Inr rows"
  shows "\<exists>rows'. rows_loop rt rate' i ps [] = Inr rows'"
proof (rule rows_loop_succeeds)
  from assms have "list_all2 (\<lambda>jp r. exit_tax_row rt rate (fst jp) (snd jp) = Inr r) (enumerate i ps) rows"
    by (simp add: rows_loop_Inr)
  then have "\<exists>r. exit_tax_row rt rate (fst jp) (snd jp) = Inr r" if "jp \<in> set (enumerate i ps)" for jp
  proof -
    from that obtain n where n: "n < length (enumerate i ps)" and jp: "enumerate i ps ! n = jp"
      by (auto simp: in_set_conv_nth)
    from \<open>list_all2 (\<lambda>jp r. exit_tax_row rt rate (fst jp) (snd jp) = Inr r) (enumerate i ps) rows\<close> n
    have "exit_tax_row rt rate (fst (enumerate i ps ! n)) (snd (enumerate i ps ! n)) = Inr (rows ! n)"
      by (rule list_all2_nthD)
    with jp show ?thesis by blast
  qed
  then show "list_all (\<lambda>jp. \<exists>r. exit_tax_row rt rate' (fst jp) (snd jp) = Inr r) (enumerate i ps)"
    by (auto simp: list_all_iff dest: exit_tax_row_rate_free)
qed

lemma compute_rows:
  "compute_exit_tax_from_positions rt data rate = Inr rows \<Longrightarrow>
   \<exists>ps. iter_json data = Inr ps \<and> rows_loop rt rate 0 ps [] = Inr rows"
  by (auto simp: compute_exit_tax_from_positions_def split: sum.splits)

lemma compute_JArr: "compute_exit_tax_from_positions rt (JArr ps) rate = rows_loop rt rate 0 ps []"
  by (simp add: compute_exit_tax_from_positions_def iter_json_def)

subsection \<open>The deemed-disposal date\<close>

lemma example_run:
  "compute_exit_tax_from_positions ref_builtins (JArr example_positions) (38 / 100) = Inr example_rows"
  by code_simp

text \<open>
  C1, as amended: for a source date that is a calendar date of a year up to 9991,
  \<open>_add_years\<close> returns, with the year advanced by 8 and 29 February moved to 28
  February when the target year is not a leap year; and in every row that the batch
  computation returns, the deemed disposal date is that date of the date part of
  \<open>created_at\<close>. Beyond the year 9991 the target year does not exist in the calendar
  type and the call raises.
\<close>

theorem deemed_disposal_date_rule:
  "(valid_date d \<and> year d \<le> 9991 \<longrightarrow> add_years d 8 = Inr (deemed_date_rule d))
   \<and> (compute_exit_tax_from_positions rt data rate = Inr rows \<and> r \<in> set rows
        \<and> valid_date (dt_date (created_at r))
      \<longrightarrow> deemed_disposal_date r = deemed_date_rule (dt_date (created_at r)))"
proof (intro conjI impI)
  assume "valid_date d \<and> year d \<le> 9991"
  then show "add_years d 8 = Inr (deemed_date_rule d)"
    by (simp add: add_years_in_range)
next
  assume a: "compute_exit_tax_from_positions rt data rate = Inr rows \<and> r \<in> set rows
        \<and> valid_date (dt_date (created_at r))"
  then obtain ps where "rows_loop rt rate 0 ps [] = Inr rows"
    using compute_rows by blast
  with a obtain j p where "exit_tax_row rt rate j p = Inr r"
    using rows_loop_member by blast
  then have "add_years (dt_date (created_at r)) 8 = Inr (deemed_disposal_date r)"
    by (rule exit_tax_row_Inr)
  with a show "deemed_disposal_date r = deemed_date_rule (dt_date (created_at r))"
    by (simp add: add_years_Inr_rule)
qed

theorem deemed_disposal_date_rule_witness:
  "add_years \<lparr>year = 2092, month = 2, day = 29\<rparr> 8 = Inr \<lparr>year = 2100, month = 2, day = 28\<rparr>
   \<and> add_years \<lparr>year = 2016, month = 2, day = 29\<rparr> 8 = Inr \<lparr>year = 2024, month = 2, day = 29\<rparr>
   \<and> deemed_disposal_date (hd example_rows) = \<lparr>year = 2028, month = 5, day = 11\<rparr>"
proof -
  have v1: "valid_date \<lparr>year = 2092, month = 2, day = 29\<rparr> \<and> year \<lparr>year = 2092, month = 2, day = 29\<rparr> \<le> 9991"
    by (simp add: valid_date_def valid_ymd_def days_in_month_def is_leap_def)
  have v2: "valid_date \<lparr>year = 2016, month = 2, day = 29\<rparr> \<and> year \<lparr>year = 2016, month = 2, day = 29\<rparr> \<le> 9991"
    by (simp add: valid_date_def valid_ymd_def days_in_month_def is_leap_def)
  have "hd example_rows \<in> set example_rows \<and> valid_date (dt_date (created_at (hd example_rows)))"
    by (simp add: example_rows_def valid_date_def valid_ymd_def days_in_month_def)
  with example_run
  have run: "compute_exit_tax_from_positions ref_builtins (JArr example_positions) (38 / 100) = Inr example_rows
     \<and> hd example_rows \<in> set example_rows \<and> valid_date (dt_date (created_at (hd example_rows)))"
    by simp
  from deemed_disposal_date_rule [of "\<lparr>year = 2092, month = 2, day = 29\<rparr>"] v1
  have "add_years \<lparr>year = 2092, month = 2, day = 29\<rparr> 8 = Inr (deemed_date_rule \<lparr>year = 2092, month = 2, day = 29\<rparr>)"
    by blast
  moreover from deemed_disposal_date_rule [of "\<lparr>year = 2016, month = 2, day = 29\<rparr>"] v2
  have "add_years \<lparr>year = 2016, month = 2, day = 29\<rparr> 8 = Inr (deemed_date_rule \<lparr>year = 2016, month = 2, day = 29\<rparr>)"
    by blast
  moreover from deemed_disposal_date_rule [of _ ref_builtins "JArr example_positions" "38 / 100" example_rows "hd example_rows"] run
  have "deemed_disposal_date (hd example_rows) = deemed_date_rule (dt_date (created_at (hd example_rows)))"
    by blast
  ultimately show ?thesis
    by (simp add: deemed_date_rule_def is_leap_def example_rows_def)
qed

text \<open>The first day of the year 9992 is a calendar date, and adding 8 years to it raises.\<close>

theorem add_years_raises_counterexample:
  "valid_date \<lparr>year = 9992, month = 1, day = 1\<rparr>
   \<and> add_years \<lparr>year = 9992, month = 1, day = 1\<rparr> 8 = Inl ValueError"
  by (simp add: valid_date_def valid_ymd_def days_in_month_def add_years_def date_new_def)

subsection \<open>Gain and tax due\<close>

lemma exit_tax_row_amounts:
  assumes "exit_tax_row rt rate i p = Inr r"
  shows "total_cost r = position_cost rt p" and "current_value r = position_value rt p"
proof -
  from assms have "position_shape p"
    by (rule exit_tax_row_Inr)
  then obtain pd inst wi where p: "p = JObj pd"
    and i: "py_or (dict_get pd ''instrument'' (JObj [])) (JObj []) = JObj inst"
    and w: "py_or (dict_get pd ''walletImpact'' (JObj [])) (JObj []) = JObj wi"
    by (rule position_shapeE)
  from assms obtain created deemed where r: "r = make_row rt rate inst wi created deemed"
    by (auto simp: exit_tax_row_def p i w split: sum.splits)
  have wi: "wallet_impact p = wi"
    by (simp add: wallet_impact_def p w)
  show "total_cost r = position_cost rt p"
    by (simp add: r make_row_def Let_def position_cost_def wi)
  show "current_value r = position_value rt p"
    by (simp add: r make_row_def Let_def position_value_def wi)
qed

text \<open>
  C2: for every position of a batch that the computation returns, at any rate, the row
  of the position carries the cost and the value read from the position's wallet
  impact, its \<open>taxable_gain_today\<close> is the larger of the value minus the cost and 0,
  hence never negative, and its \<open>exit_tax_due_today\<close> is that gain times the rate.
  The rate is not checked: a batch that is computed at one rate is computed at every
  other rate.
\<close>

theorem taxable_gain_and_tax_due:
  assumes "compute_exit_tax_from_positions rt (JArr ps) rate = Inr rows" and "j < length ps"
  shows "length rows = length ps
       \<and> total_cost (rows ! j) = position_cost rt (ps ! j)
       \<and> current_value (rows ! j) = position_value rt (ps ! j)
       \<and> taxable_gain_today (rows ! j) = max (position_value rt (ps ! j) - position_cost rt (ps ! j)) 0
       \<and> 0 \<le> taxable_gain_today (rows ! j)
       \<and> exit_tax_due_today (rows ! j) = max (position_value rt (ps ! j) - position_cost rt (ps ! j)) 0 * rate
       \<and> (\<exists>rows'. compute_exit_tax_from_positions rt (JArr ps) rate' = Inr rows')"
proof -
  from assms(1) have lp: "rows_loop rt rate 0 ps [] = Inr rows"
    by (simp add: compute_JArr)
  then have len: "length rows = length ps"
    by (rule rows_loop_nth)
  from lp assms(2) have row: "exit_tax_row rt rate j (ps ! j) = Inr (rows ! j)"
    by (rule rows_loop_nth)
  have c: "total_cost (rows ! j) = position_cost rt (ps ! j)"
    and v: "current_value (rows ! j) = position_value rt (ps ! j)"
    using row by (rule exit_tax_row_amounts)+
  have g: "taxable_gain_today (rows ! j) = max (current_value (rows ! j) - total_cost (rows ! j)) 0"
    using row by (rule exit_tax_row_Inr)
  have t: "exit_tax_due_today (rows ! j) = taxable_gain_today (rows ! j) * rate"
    using row by (rule exit_tax_row_Inr)
  from lp obtain rows' where "rows_loop rt rate' 0 ps [] = Inr rows'"
    using rows_loop_rate_free by blast
  then have "\<exists>rows'. compute_exit_tax_from_positions rt (JArr ps) rate' = Inr rows'"
    by (simp add: compute_JArr)
  with len c v g t show ?thesis by simp
qed

theorem taxable_gain_and_tax_due_witness:
  "position_cost ref_builtins (example_positions ! 0) = 1000
   \<and> position_value ref_builtins (example_positions ! 0) = 1500
   \<and> taxable_gain_today (example_rows ! 0) = 500
   \<and> exit_tax_due_today (example_rows ! 0) = 190
   \<and> position_cost ref_builtins (example_positions ! 1) = 100
   \<and> position_value ref_builtins (example_positions ! 1) = 80
   \<and> taxable_gain_today (example_rows ! 1) = 0
   \<and> exit_tax_due_today (example_rows ! 1) = 0
   \<and> (\<exists>rows'. compute_exit_tax_from_positions ref_builtins (JArr example_positions) (- 7) = Inr rows')"
proof -
  have l0: "(0::nat) < length example_positions" and l1: "(1::nat) < length example_positions"
    by (simp_all add: example_positions_def)
  have a0: "position_cost ref_builtins (example_positions ! 0) = 1000
            \<and> position_value ref_builtins (example_positions ! 0) = 1500"
    by code_simp
  have a1: "position_cost ref_builtins (example_positions ! 1) = 100
            \<and> position_value ref_builtins (example_positions ! 1) = 80"
    by code_simp
  from taxable_gain_and_tax_due [OF example_run l0, of "- 7"] a0
  have r0: "taxable_gain_today (example_rows ! 0) = 500 \<and> exit_tax_due_today (example_rows ! 0) = 190
     \<and> (\<exists>rows'. compute_exit_tax_from_positions ref_builtins (JArr example_positions) (- 7) = Inr rows')"
    by simp
  from taxable_gain_and_tax_due [OF example_run l1, of "- 7"] a1
  have r1: "taxable_gain_today (example_rows ! 1) = 0 \<and> exit_tax_due_today (example_rows ! 1) = 0"
    by simp
  from a0 a1 r0 r1 show ?thesis by blast
qed

subsection \<open>Batches: success, failure and order\<close>


lemma enumerate_snd:
  assumes "jp \<in> set (enumerate n xs)"
  shows "snd jp \<in> set xs"
proof -
  from assms have i: "fst jp - n < length xs" and x: "xs ! (fst jp - n) = snd jp"
    by (auto simp: in_set_enumerate_eq)
  from nth_mem [OF i] x show ?thesis by simp
qed


lemma in_reach_row:
  assumes "position_shape p" and "in_reach (source_date rt i p)"
  shows "\<exists>r. exit_tax_row rt rate i p = Inr r"
proof -
  from assms(2) obtain d where d: "source_date rt i p = Some d" and "valid_date d" and "year d \<le> 9991"
    by (auto simp: in_reach_def split: option.splits)
  then have "add_years d 8 = Inr (deemed_date_rule d)"
    by (simp add: add_years_in_range)
  with assms(1) d show ?thesis
    by (rule exit_tax_row_succeeds)
qed

lemma batch_succeeds:
  assumes "list_all position_shape ps" and "dates_in_reach rt ps"
  shows "\<exists>rows. rows_loop rt rate 0 ps [] = Inr rows"
proof (rule rows_loop_succeeds)
  have "\<exists>r. exit_tax_row rt rate (fst jp) (snd jp) = Inr r" if "jp \<in> set (enumerate 0 ps)" for jp
  proof -
    from that have "snd jp \<in> set ps"
      by (rule enumerate_snd)
    with assms(1) have "position_shape (snd jp)"
      by (simp add: list_all_iff)
    moreover from that assms(2) have "in_reach (source_date rt (fst jp) (snd jp))"
      by (simp add: dates_in_reach_def list_all_iff)
    ultimately show ?thesis by (rule in_reach_row)
  qed
  then show "list_all (\<lambda>jp. \<exists>r. exit_tax_row rt rate (fst jp) (snd jp) = Inr r) (enumerate 0 ps)"
    by (simp add: list_all_iff)
qed







lemma iso_date_valid: "iso_date s = Some d \<Longrightarrow> valid_date d"
  by (auto simp: iso_date_def valid_date_def split: option.splits prod.splits if_splits)

lemma iso_datetime_valid: "iso_datetime s = Some dt \<Longrightarrow> valid_date (dt_date dt)"
  by (auto simp: iso_datetime_def split: option.splits prod.splits if_splits dest: iso_date_valid)







text \<open>
  C6, as amended: for a batch of positions of the expected shape whose timestamps are
  empty or parseable and give calendar dates of a year up to 9991, the computation
  returns exactly one row per position, the \<open>j\<close>-th row being the row of the
  \<open>j\<close>-th position. No registry takes part: nothing is filtered.
\<close>

theorem one_row_per_position:
  assumes "list_all position_shape ps" and "dates_in_reach rt ps"
  shows "\<exists>rows. compute_exit_tax_from_positions rt (JArr ps) rate = Inr rows
           \<and> length rows = length ps
           \<and> (\<forall>j < length ps. exit_tax_row rt rate j (ps ! j) = Inr (rows ! j))"
proof -
  from assms obtain rows where rows: "rows_loop rt rate 0 ps [] = Inr rows"
    using batch_succeeds by blast
  then have "length rows = length ps"
    and "\<And>j. j < length ps \<Longrightarrow> exit_tax_row rt rate j (ps ! j) = Inr (rows ! j)"
    by (rule rows_loop_nth)+
  with rows show ?thesis
    by (auto simp: compute_JArr)
qed

theorem one_row_per_position_witness:
  "compute_exit_tax_from_positions ref_builtins (JArr example_positions) (38 / 100) = Inr example_rows
   \<and> length example_rows = length example_positions
   \<and> map isin example_rows = [''IE00BK5BQT80'', ''US0378331005'']
   \<and> exit_tax_row ref_builtins (38 / 100) 1 (example_positions ! 1) = Inr (example_rows ! 1)
   \<and> \<not> is_exit_tax ref_builtins example_list_registry (JStr ''US0378331005'')"
proof -
  have unlisted: "\<not> is_exit_tax ref_builtins example_list_registry (JStr ''US0378331005'')"
    by code_simp
  have s1: "list_all position_shape example_positions"
    by code_simp
  have r1: "dates_in_reach ref_builtins example_positions"
    by code_simp
  from one_row_per_position [OF s1 r1, of "38 / 100"]
  obtain rows where rows: "compute_exit_tax_from_positions ref_builtins (JArr example_positions) (38 / 100) = Inr rows"
    and len: "length rows = length example_positions"
    and nth: "\<forall>j < length example_positions. exit_tax_row ref_builtins (38 / 100) j (example_positions ! j) = Inr (rows ! j)"
    by blast
  from rows example_run have eq: "rows = example_rows" by simp
  have "(1::nat) < length example_positions"
    by (simp add: example_positions_def)
  with nth eq have "exit_tax_row ref_builtins (38 / 100) 1 (example_positions ! 1) = Inr (example_rows ! 1)"
    by blast
  with len eq example_run unlisted show ?thesis
    by (simp add: example_rows_def)
qed

text \<open>
  Three positions whose timestamps are empty or parseable, the last of the year 9995:
  the computation returns no row at all.
\<close>

theorem parseable_batch_counterexample:
  "list_all position_shape (example_positions @ [late_position])
   \<and> list_all (\<lambda>p. parseable ref_builtins (created_at_raw ref_builtins p) \<or> created_at_raw ref_builtins p = [])
        (example_positions @ [late_position])
   \<and> compute_exit_tax_from_positions ref_builtins (JArr (example_positions @ [late_position])) (38 / 100)
       = Inl ValueError"
  by code_simp

subsection \<open>Accepted shapes and dropped records\<close>
lemma load_dict_items_append:
  "load_dict_items rt (xs @ ys) acc = load_dict_items rt ys (load_dict_items rt xs acc)"
proof (induction rt xs acc rule: load_dict_items.induct)
  case (1 rt by_isin)
  then show ?case by simp
next
  case (2 rt k v items by_isin)
  then show ?case by (cases v) (simp_all add: Let_def)
qed

lemma load_list_items_append:
  "load_list_items rt (xs @ ys) acc = load_list_items rt ys (load_list_items rt xs acc)"
proof (induction rt xs acc rule: load_list_items.induct)
  case (1 rt by_isin)
  then show ?case by simp
next
  case (2 rt x recs by_isin)
  then show ?case by (cases x) (simp_all add: Let_def)
qed

lemma load_error: "(load rt data = Inl e) = (e = ValueError \<and> \<not> isinstance_dict data \<and> \<not> isinstance_list data)"
  by (cases data) (auto simp: load_def isinstance_dict_def isinstance_list_def)

text \<open>
  C5: \<open>load\<close> fails exactly when the decoded value is neither a \<open>dict\<close> nor a
  \<open>list\<close>, and then with \<open>ValueError\<close>, the error kind that the specification calls
  \<open>DataFormatError\<close>. Within an accepted shape, an entry whose identifier normalizes
  to the empty string, a record without an identifier and an element that is not a
  record are dropped: the load gives what it gives without them.
\<close>

theorem load_shapes_and_drops:
  "((\<exists>e. load rt data = Inl e) = (\<not> isinstance_dict data \<and> \<not> isinstance_list data))
   \<and> (load rt data = Inl e \<longrightarrow> e = ValueError)
   \<and> (normalize_isin rt (JStr k) = [] \<longrightarrow>
        load rt (JObj (items @ (k, v) # items')) = load rt (JObj (items @ items')))
   \<and> (normalize_isin rt (isin_value r) = [] \<longrightarrow>
        load rt (JArr (recs @ JObj r # recs')) = load rt (JArr (recs @ recs')))
   \<and> (\<not> isinstance_dict x \<longrightarrow>
        load rt (JArr (recs @ x # recs')) = load rt (JArr (recs @ recs')))"
proof (intro conjI impI)
  show "(\<exists>e. load rt data = Inl e) = (\<not> isinstance_dict data \<and> \<not> isinstance_list data)"
    by (simp add: load_error)
  show "e = ValueError" if "load rt data = Inl e"
    using that by (simp add: load_error)
  show "load rt (JObj (items @ (k, v) # items')) = load rt (JObj (items @ items'))"
    if "normalize_isin rt (JStr k) = []"
    using that by (simp add: load_def load_dict_items_append)
  show "load rt (JArr (recs @ JObj r # recs')) = load rt (JArr (recs @ recs'))"
    if "normalize_isin rt (isin_value r) = []"
    using that by (simp add: load_def load_list_items_append)
  show "load rt (JArr (recs @ x # recs')) = load rt (JArr (recs @ recs'))"
    if "\<not> isinstance_dict x"
    using that by (cases x) (simp_all add: load_def load_list_items_append isinstance_dict_def)
qed

subsection \<open>Worked loads\<close>
lemma example_list_load: "load ref_builtins example_list_source = Inr example_list_registry"
  by code_simp

theorem load_shapes_and_drops_witness:
  "(\<exists>e. load ref_builtins (JStr ''ETF'') = Inl e)
   \<and> load ref_builtins (JInt 3) = Inl ValueError
   \<and> load ref_builtins (JObj ([(''IE00B3'', JStr ''ETF'')] @ ('' '', JStr ''ETF'') # []))
       = Inr [(''IE00B3'', [(''TYPE'', JStr ''ETF'')])]
   \<and> load ref_builtins (JArr ([] @ JObj [(''foo'', JStr ''bar'')] # [])) = Inr []
   \<and> load ref_builtins (JArr ([] @ JStr ''IE00B3'' # [])) = Inr []"
proof -
  have a: "\<not> isinstance_dict (JStr ''ETF'') \<and> \<not> isinstance_list (JStr ''ETF'')"
    by (simp add: isinstance_dict_def isinstance_list_def)
  have b: "load ref_builtins (JInt 3) = Inl ValueError"
    by (simp add: load_def)
  have c: "normalize_isin ref_builtins (JStr '' '') = []"
    by code_simp
  have d: "normalize_isin ref_builtins (isin_value [(''foo'', JStr ''bar'')]) = []"
    by code_simp
  have e: "\<not> isinstance_dict (JStr ''IE00B3'')"
    by (simp add: isinstance_dict_def)
  have c': "load ref_builtins (JObj ([(''IE00B3'', JStr ''ETF'')] @ [])) = Inr [(''IE00B3'', [(''TYPE'', JStr ''ETF'')])]"
    by code_simp
  have d': "load ref_builtins (JArr ([] @ [])) = Inr []"
    by code_simp
  from load_shapes_and_drops [of ref_builtins "JStr ''ETF''" "ValueError" "'' ''" "[(''IE00B3'', JStr ''ETF'')]" "JStr ''ETF''" "[]"
         "[(''foo'', JStr ''bar'')]" "[]" "[]" "JStr ''IE00B3''"] a c d e c' d'
  have "(\<exists>e. load ref_builtins (JStr ''ETF'') = Inl e)
   \<and> load ref_builtins (JObj ([(''IE00B3'', JStr ''ETF'')] @ ('' '', JStr ''ETF'') # []))
       = Inr [(''IE00B3'', [(''TYPE'', JStr ''ETF'')])]
   \<and> load ref_builtins (JArr ([] @ JObj [(''foo'', JStr ''bar'')] # [])) = Inr []
   \<and> load ref_builtins (JArr ([] @ JStr ''IE00B3'' # [])) = Inr []"
    by presburger
  with b show ?thesis by blast
qed

text \<open>The keys of the registry loaded from the list source of the tests.\<close>

theorem load_keys_normalized_witness:
  "load ref_builtins example_list_source = Inr example_list_registry
   \<and> ''GB000000'' \<in> fst ` set example_list_registry
   \<and> normalize_isin ref_builtins (JStr ''GB000000'') = ''GB000000''"
proof -
  have k: "''GB000000'' \<in> fst ` set example_list_registry"
    by (simp add: example_list_registry_def)
  from load_keys_normalized [OF example_list_load k] example_list_load k show ?thesis
    by simp
qed

lemma tag_string_empty: "tag_string rt [] = []"
  by (simp add: tag_string_def type_tag_def dict_get_def py_or_def truthy_def py_str_def)

lemma exit_tax_tag_empty: "\<not> exit_tax_tag []"
  by (simp add: exit_tax_tag_def upper_def strip_def)

subsection \<open>Classification\<close>

lemma is_exit_tax_lookup:
  assumes "list_all (key_ok rt) (map fst reg)"
  shows "is_exit_tax rt reg x =
           (\<exists>r. map_of reg (normalize_isin rt x) = Some r \<and> exit_tax_tag (tag_string rt r))"
proof (cases "map_of reg (normalize_isin rt x)")
  case None
  then show ?thesis by (simp add: is_exit_tax_def Let_def)
next
  case (Some r)
  then have "normalize_isin rt x \<in> fst ` set reg"
    by (auto dest: map_of_SomeD intro: rev_image_eqI)
  with assms have ne: "normalize_isin rt x \<noteq> []"
    by (auto simp: list_all_iff key_ok_def)
  show ?thesis
  proof (cases "r = []")
    case True
    with Some ne show ?thesis
      by (simp add: is_exit_tax_def Let_def tag_string_empty exit_tax_tag_empty)
  next
    case False
    with Some ne show ?thesis
      by (simp add: is_exit_tax_def Let_def tag_string_def exit_tax_tag_def)
  qed
qed

text \<open>
  C4, as amended: for a registry that \<open>load\<close> returned and any identifier,
  \<open>is_exit_tax\<close> answers true exactly when the normalized identifier is registered
  and the stored type tag, upper-cased and stripped of surrounding whitespace, is
  \<open>ETF\<close> or \<open>INDEX\<close>. Any other tag and any unregistered identifier give false;
  the function has no failing branch.
\<close>

theorem is_exit_tax_rule:
  assumes "load rt data = Inr reg"
  shows "is_exit_tax rt reg x =
           (\<exists>r. map_of reg (normalize_isin rt x) = Some r \<and> exit_tax_tag (tag_string rt r))"
  using load_keys [OF assms] by (rule is_exit_tax_lookup)

lemma padded_load: "load ref_builtins padded_source = Inr padded_registry"
  by code_simp

theorem is_exit_tax_rule_witness:
  "is_exit_tax ref_builtins example_list_registry (JStr ''ie00 b3'')
   \<and> \<not> is_exit_tax ref_builtins example_list_registry (JStr ''gb00 0000'')
   \<and> \<not> is_exit_tax ref_builtins example_list_registry (JStr ''US0378331005'')"
proof -
  have a: "\<exists>r. map_of example_list_registry (normalize_isin ref_builtins (JStr ''ie00 b3'')) = Some r
            \<and> exit_tax_tag (tag_string ref_builtins r)"
  proof (intro exI conjI)
    show "map_of example_list_registry (normalize_isin ref_builtins (JStr ''ie00 b3''))
            = Some [(''isin'', JStr '' ie00b3 ''), (''type'', JStr ''index'')]"
      by code_simp
    show "exit_tax_tag (tag_string ref_builtins [(''isin'', JStr '' ie00b3 ''), (''type'', JStr ''index'')])"
      by code_simp
  qed
  have b: "map_of example_list_registry (normalize_isin ref_builtins (JStr ''gb00 0000''))
            = Some [(''ISIN'', JStr ''GB00 0000''), (''TYPE'', JStr ''Equity'')]"
    by code_simp
  have b': "\<not> exit_tax_tag (tag_string ref_builtins [(''ISIN'', JStr ''GB00 0000''), (''TYPE'', JStr ''Equity'')])"
    by code_simp
  have c: "map_of example_list_registry (normalize_isin ref_builtins (JStr ''US0378331005'')) = None"
    by code_simp
  from is_exit_tax_rule [OF example_list_load, of "JStr ''ie00 b3''"] a
  have "is_exit_tax ref_builtins example_list_registry (JStr ''ie00 b3'')"
    by blast
  moreover from is_exit_tax_rule [OF example_list_load, of "JStr ''gb00 0000''"] b b'
  have "\<not> is_exit_tax ref_builtins example_list_registry (JStr ''gb00 0000'')"
    by simp
  moreover from is_exit_tax_rule [OF example_list_load, of "JStr ''US0378331005''"] c
  have "\<not> is_exit_tax ref_builtins example_list_registry (JStr ''US0378331005'')"
    by simp
  ultimately show ?thesis by blast
qed

text \<open>
  The tag \<open>etf\<close> followed by a space is accepted, although upper-casing alone does
  not turn it into \<open>ETF\<close>.
\<close>

theorem padded_tag_counterexample:
  "load ref_builtins padded_source = Inr padded_registry
   \<and> is_exit_tax ref_builtins padded_registry (JStr ''IE00B3'')
   \<and> \<not> eligible_exact ref_builtins padded_registry (JStr ''IE00B3'')"
  by code_simp

subsection \<open>The snapshot percentage\<close>

text \<open>
  C9: the percentage of a snapshot row is \<open>unrealized_pl / total_cost\<close> when both are
  present and \<open>total_cost\<close> is not zero, and is absent otherwise; it is the last cell
  of the row that \<open>write_snapshot_csv\<close> writes for it.
\<close>

theorem pl_pct_guarded:
  "(unrealized_pl r = Some pl \<and> snap_total_cost r = Some tc \<and> tc \<noteq> 0 \<longrightarrow> pl_pct r = Some (pl / tc))
   \<and> (unrealized_pl r = None \<or> snap_total_cost r = None \<or> snap_total_cost r = Some 0 \<longrightarrow> pl_pct r = None)
   \<and> (i < length rows \<longrightarrow> last (write_snapshot_csv rows ! Suc i) = opt_cell (pl_pct (rows ! i)))"
  by (auto simp: pl_pct_def write_snapshot_csv_def snapshot_cells_def)

theorem pl_pct_guarded_witness:
  "pl_pct \<lparr>snap_ticker = ''VWCE'', snap_isin = ''IE00BK5BQT80'', snap_name = ''Vanguard'',
           snap_currency = ''EUR'', quantity = 10, avg_price_paid = None, current_price = None,
           snap_total_cost = Some 200, snap_current_value = Some 250, unrealized_pl = Some 50\<rparr>
     = Some (1 / 4)
   \<and> pl_pct \<lparr>snap_ticker = ''VWCE'', snap_isin = ''IE00BK5BQT80'', snap_name = ''Vanguard'',
           snap_currency = ''EUR'', quantity = 10, avg_price_paid = None, current_price = None,
           snap_total_cost = Some 0, snap_current_value = Some 250, unrealized_pl = Some 50\<rparr>
     = None"
proof -
  let ?r = "\<lparr>snap_ticker = ''VWCE'', snap_isin = ''IE00BK5BQT80'', snap_name = ''Vanguard'',
           snap_currency = ''EUR'', quantity = 10, avg_price_paid = None, current_price = None,
           snap_total_cost = Some 200, snap_current_value = Some 250, unrealized_pl = Some 50\<rparr>"
  let ?z = "\<lparr>snap_ticker = ''VWCE'', snap_isin = ''IE00BK5BQT80'', snap_name = ''Vanguard'',
           snap_currency = ''EUR'', quantity = 10, avg_price_paid = None, current_price = None,
           snap_total_cost = Some 0, snap_current_value = Some 250, unrealized_pl = Some 50\<rparr>"
  from pl_pct_guarded [of ?r 50 200] have "pl_pct ?r = Some (50 / 200)" by simp
  moreover from pl_pct_guarded [of ?z] have "pl_pct ?z = None" by simp
  ultimately show ?thesis by simp
qed

subsection \<open>The two shapes of a registry source\<close>

lemma lower_TYPE: "lower ''TYPE'' \<noteq> ''isin''" "lower ''type'' \<noteq> ''isin''"
  by code_simp+

lemma isin_key_not_tag: "lower key = ''isin'' \<Longrightarrow> key \<noteq> tag_key_name k"
  using lower_TYPE by (cases k) (auto simp: tag_key_name_def)

lemma tag_string_single: "tag_string rt [(tag_key_name k, JStr t)] = t"
  by (cases k) (simp_all add: tag_string_def type_tag_def dict_get_def py_or_def truthy_def py_str_def tag_key_name_def)

lemma tag_string_bare: "tag_string rt [(''TYPE'', JStr t)] = t"
  using tag_string_single [of rt Upper_TYPE t] by (simp add: tag_key_name_def)

lemma tag_string_record:
  assumes "lower key = ''isin''"
  shows "tag_string rt [(key, JStr i), (tag_key_name k, JStr t)] = t"
proof -
  from assms have "key \<noteq> ''TYPE''" and "key \<noteq> ''type''"
    using isin_key_not_tag [of key Upper_TYPE] isin_key_not_tag [of key Lower_type]
    by (simp_all add: tag_key_name_def)
  then show ?thesis
    by (cases k) (simp_all add: tag_string_def type_tag_def dict_get_def py_or_def truthy_def py_str_def tag_key_name_def)
qed

lemma isin_value_record: "lower key = ''isin'' \<Longrightarrow> isin_value ((key, JStr i) # r) = JStr i"
  by (simp add: isin_value_def)

text \<open>One step of each loop on an encoded pair.\<close>

lemma load_dict_items_entry:
  "load_dict_items rt (shape_a_entry (ko, i, t) # items) acc =
     (if normalize_isin rt (JStr i) = [] then load_dict_items rt items acc
      else load_dict_items rt items
             (dict_set acc (normalize_isin rt (JStr i))
                [(case ko of None \<Rightarrow> ''TYPE'' | Some k \<Rightarrow> tag_key_name k, JStr t)]))"
  by (cases ko) (simp_all add: shape_a_entry_def Let_def)

lemma load_list_items_record:
  assumes "lower key = ''isin''"
  shows "load_list_items rt (shape_b_record ((key, k), i, t) # recs) acc =
     (if normalize_isin rt (JStr i) = [] then load_list_items rt recs acc
      else load_list_items rt recs
             (dict_set acc (normalize_isin rt (JStr i)) [(key, JStr i), (tag_key_name k, JStr t)]))"
  using assms by (simp add: shape_b_record_def Let_def isin_value_record)

lemma tag_string_entry: "tag_string rt [(case ko of None \<Rightarrow> ''TYPE'' | Some k \<Rightarrow> tag_key_name k, JStr t)] = t"
  by (cases ko) (simp_all add: tag_string_bare tag_string_single)

text \<open>What a lookup in the loaded registry finds, and when it finds something.\<close>

lemma shape_a_lookup:
  "map_of (load_dict_items rt (map shape_a_entry es) acc) n = Some r \<Longrightarrow>
   map_of acc n = Some r \<or>
   (\<exists>p \<in> set (map snd es). normalize_isin rt (JStr (fst p)) = n \<and> tag_string rt r = snd p)"
proof (induction es arbitrary: acc)
  case Nil
  then show ?case by simp
next
  case (Cons e es)
  obtain ko i t where e: "e = (ko, i, t)" by (cases e) auto
  show ?case
  proof (cases "normalize_isin rt (JStr i) = []")
    case True
    with Cons.prems have "map_of (load_dict_items rt (map shape_a_entry es) acc) n = Some r"
      by (simp add: e load_dict_items_entry)
    from Cons.IH [OF this] show ?thesis by auto
  next
    case False
    let ?acc = "dict_set acc (normalize_isin rt (JStr i))
                  [(case ko of None \<Rightarrow> ''TYPE'' | Some k \<Rightarrow> tag_key_name k, JStr t)]"
    from False Cons.prems have "map_of (load_dict_items rt (map shape_a_entry es) ?acc) n = Some r"
      by (simp add: e load_dict_items_entry)
    from Cons.IH [OF this] show ?thesis
    proof
      assume "map_of ?acc n = Some r"
      then show ?thesis
        by (auto simp: map_of_dict_set e tag_string_entry split: if_splits)
    next
      assume "\<exists>p \<in> set (map snd es). normalize_isin rt (JStr (fst p)) = n \<and> tag_string rt r = snd p"
      then show ?thesis by auto
    qed
  qed
qed

lemma shape_a_keys:
  "fst ` set (load_dict_items rt (map shape_a_entry es) acc) =
   fst ` set acc \<union> {n. n \<noteq> [] \<and> (\<exists>p \<in> set (map snd es). normalize_isin rt (JStr (fst p)) = n)}"
proof (induction es arbitrary: acc)
  case Nil
  then show ?case by simp
next
  case (Cons e es)
  obtain ko i t where e: "e = (ko, i, t)" by (cases e) auto
  show ?case
  proof (cases "normalize_isin rt (JStr i) = []")
    case True
    then have "load_dict_items rt (map shape_a_entry (e # es)) acc
                 = load_dict_items rt (map shape_a_entry es) acc"
      by (simp add: e load_dict_items_entry)
    with True show ?thesis
      by (auto simp: e Cons.IH)
  next
    case False
    then have "load_dict_items rt (map shape_a_entry (e # es)) acc
                 = load_dict_items rt (map shape_a_entry es)
                     (dict_set acc (normalize_isin rt (JStr i))
                        [(case ko of None \<Rightarrow> ''TYPE'' | Some k \<Rightarrow> tag_key_name k, JStr t)])"
      by (simp add: e load_dict_items_entry)
    with False show ?thesis
      by (auto simp: e Cons.IH keys_dict_set)
  qed
qed

lemma shape_b_lookup:
  assumes "list_all (\<lambda>e. lower (fst (fst e)) = ''isin'') es"
  shows "map_of (load_list_items rt (map shape_b_record es) acc) n = Some r \<Longrightarrow>
   map_of acc n = Some r \<or>
   (\<exists>p \<in> set (map snd es). normalize_isin rt (JStr (fst p)) = n \<and> tag_string rt r = snd p)"
  using assms
proof (induction es arbitrary: acc)
  case Nil
  then show ?case by simp
next
  case (Cons e es)
  obtain key k i t where e: "e = ((key, k), i, t)" by (cases e) auto
  from Cons.prems(2) have key: "lower key = ''isin''" and rest: "list_all (\<lambda>e. lower (fst (fst e)) = ''isin'') es"
    by (simp_all add: e)
  show ?case
  proof (cases "normalize_isin rt (JStr i) = []")
    case True
    with Cons.prems(1) have "map_of (load_list_items rt (map shape_b_record es) acc) n = Some r"
      by (simp add: e load_list_items_record [OF key] del: load_list_items.simps)
    from Cons.IH [OF this rest] show ?thesis by auto
  next
    case False
    let ?acc = "dict_set acc (normalize_isin rt (JStr i)) [(key, JStr i), (tag_key_name k, JStr t)]"
    from False Cons.prems(1) have "map_of (load_list_items rt (map shape_b_record es) ?acc) n = Some r"
      by (simp add: e load_list_items_record [OF key] del: load_list_items.simps)
    from Cons.IH [OF this rest] show ?thesis
    proof
      assume "map_of ?acc n = Some r"
      then show ?thesis
        by (auto simp: map_of_dict_set e tag_string_record [OF key] split: if_splits)
    next
      assume "\<exists>p \<in> set (map snd es). normalize_isin rt (JStr (fst p)) = n \<and> tag_string rt r = snd p"
      then show ?thesis by auto
    qed
  qed
qed

lemma shape_b_keys:
  assumes "list_all (\<lambda>e. lower (fst (fst e)) = ''isin'') es"
  shows "fst ` set (load_list_items rt (map shape_b_record es) acc) =
   fst ` set acc \<union> {n. n \<noteq> [] \<and> (\<exists>p \<in> set (map snd es). normalize_isin rt (JStr (fst p)) = n)}"
  using assms
proof (induction es arbitrary: acc)
  case Nil
  then show ?case by simp
next
  case (Cons e es)
  obtain key k i t where e: "e = ((key, k), i, t)" by (cases e) auto
  from Cons.prems have key: "lower key = ''isin''" and rest: "list_all (\<lambda>e. lower (fst (fst e)) = ''isin'') es"
    by (simp_all add: e)
  show ?case
  proof (cases "normalize_isin rt (JStr i) = []")
    case True
    then have "load_list_items rt (map shape_b_record (e # es)) acc
                 = load_list_items rt (map shape_b_record es) acc"
      by (simp add: e load_list_items_record [OF key] del: load_list_items.simps)
    with True show ?thesis
      by (auto simp: e Cons.IH [OF rest])
  next
    case False
    then have "load_list_items rt (map shape_b_record (e # es)) acc
                 = load_list_items rt (map shape_b_record es)
                     (dict_set acc (normalize_isin rt (JStr i)) [(key, JStr i), (tag_key_name k, JStr t)])"
      by (simp add: e load_list_items_record [OF key] del: load_list_items.simps)
    with False show ?thesis
      by (auto simp: e Cons.IH [OF rest] keys_dict_set)
  qed
qed

text \<open>
  Eligibility read off the encoded pairs: when every lookup that succeeds finds the
  type of a pair with that normalized identifier, and the registered identifiers are
  those of the pairs, eligibility is a property of the set of pairs.
\<close>

lemma is_exit_tax_pairs:
  assumes keys: "list_all (key_ok rt) (map fst reg)"
    and lookup: "\<And>n r. map_of reg n = Some r \<Longrightarrow>
                   \<exists>p \<in> S. normalize_isin rt (JStr (fst p)) = n \<and> tag_string rt r = snd p"
    and dom: "fst ` set reg = {n. n \<noteq> [] \<and> (\<exists>p \<in> S. normalize_isin rt (JStr (fst p)) = n)}"
    and single: "single_typed rt S"
  shows "is_exit_tax rt reg x =
           (\<exists>p \<in> S. normalize_isin rt (JStr (fst p)) = normalize_isin rt x
                    \<and> normalize_isin rt x \<noteq> [] \<and> exit_tax_tag (snd p))"
proof -
  define n where "n = normalize_isin rt x"
  have lk: "is_exit_tax rt reg x = (\<exists>r. map_of reg n = Some r \<and> exit_tax_tag (tag_string rt r))"
    unfolding n_def using keys by (rule is_exit_tax_lookup)
  have registered: "(n \<in> fst ` set reg) = (n \<noteq> [] \<and> (\<exists>p \<in> S. normalize_isin rt (JStr (fst p)) = n))"
    unfolding dom by simp
  have "(\<exists>r. map_of reg n = Some r \<and> exit_tax_tag (tag_string rt r)) =
        (\<exists>p \<in> S. normalize_isin rt (JStr (fst p)) = n \<and> n \<noteq> [] \<and> exit_tax_tag (snd p))"
  proof
    assume "\<exists>r. map_of reg n = Some r \<and> exit_tax_tag (tag_string rt r)"
    then obtain r where r: "map_of reg n = Some r" and t: "exit_tax_tag (tag_string rt r)"
      by blast
    from lookup [OF r] obtain p where p: "p \<in> S" "normalize_isin rt (JStr (fst p)) = n"
      "tag_string rt r = snd p" by blast
    from r have "n \<in> fst ` set reg"
      by (metis map_of_eq_None_iff option.distinct(1))
    with registered have "n \<noteq> []" by simp
    with p t show "\<exists>p \<in> S. normalize_isin rt (JStr (fst p)) = n \<and> n \<noteq> [] \<and> exit_tax_tag (snd p)"
      by force
  next
    assume "\<exists>p \<in> S. normalize_isin rt (JStr (fst p)) = n \<and> n \<noteq> [] \<and> exit_tax_tag (snd p)"
    then obtain p where p: "p \<in> S" "normalize_isin rt (JStr (fst p)) = n" "n \<noteq> []" "exit_tax_tag (snd p)"
      by blast
    with registered have "n \<in> fst ` set reg" by blast
    then have "map_of reg n \<noteq> None"
      by (simp add: map_of_eq_None_iff)
    then obtain r where r: "map_of reg n = Some r" by blast
    from lookup [OF r] obtain q where q: "q \<in> S" "normalize_isin rt (JStr (fst q)) = n"
      "tag_string rt r = snd q" by blast
    from single [unfolded single_typed_def, rule_format, OF p(1) q(1)] p(2) q(2)
    have "snd p = snd q" by simp
    with p(4) q(3) have "exit_tax_tag (tag_string rt r)" by simp
    with r show "\<exists>r. map_of reg n = Some r \<and> exit_tax_tag (tag_string rt r)" by blast
  qed
  with lk show ?thesis
    unfolding n_def by simp
qed

text \<open>
  C7, as amended: a Shape A source and a Shape B source that encode the same set of
  (identifier, type) pairs, in which no normalized identifier is given two different
  types, load into registries on which \<open>is_exit_tax\<close> gives the same answer for every
  identifier.
\<close>

theorem shapes_agree:
  assumes "list_all (\<lambda>e. lower (fst (fst e)) = ''isin'') bs"
    and "set (map snd as) = set (map snd bs)"
    and "single_typed rt (set (map snd as))"
  shows "\<exists>ra rb. load rt (shape_a as) = Inr ra \<and> load rt (shape_b bs) = Inr rb
           \<and> is_exit_tax rt ra x = is_exit_tax rt rb x"
proof -
  let ?ra = "load_dict_items rt (map shape_a_entry as) []"
  let ?rb = "load_list_items rt (map shape_b_record bs) []"
  have la: "load rt (shape_a as) = Inr ?ra"
    by (simp add: load_def shape_a_def)
  have lb: "load rt (shape_b bs) = Inr ?rb"
    by (simp add: load_def shape_b_def)
  have "is_exit_tax rt ?ra x =
          (\<exists>p \<in> set (map snd as). normalize_isin rt (JStr (fst p)) = normalize_isin rt x
                    \<and> normalize_isin rt x \<noteq> [] \<and> exit_tax_tag (snd p))"
  proof (rule is_exit_tax_pairs)
    show "list_all (key_ok rt) (map fst ?ra)"
      using la by (rule load_keys)
    show "\<exists>p \<in> set (map snd as). normalize_isin rt (JStr (fst p)) = n \<and> tag_string rt r = snd p"
      if "map_of ?ra n = Some r" for n r
      using shape_a_lookup [OF that] by simp
    show "fst ` set ?ra = {n. n \<noteq> [] \<and> (\<exists>p \<in> set (map snd as). normalize_isin rt (JStr (fst p)) = n)}"
      using shape_a_keys [of rt as "[]"] by simp
    show "single_typed rt (set (map snd as))" by fact
  qed
  moreover have "is_exit_tax rt ?rb x =
          (\<exists>p \<in> set (map snd bs). normalize_isin rt (JStr (fst p)) = normalize_isin rt x
                    \<and> normalize_isin rt x \<noteq> [] \<and> exit_tax_tag (snd p))"
  proof (rule is_exit_tax_pairs)
    show "list_all (key_ok rt) (map fst ?rb)"
      using lb by (rule load_keys)
    show "\<exists>p \<in> set (map snd bs). normalize_isin rt (JStr (fst p)) = n \<and> tag_string rt r = snd p"
      if "map_of ?rb n = Some r" for n r
      using shape_b_lookup [OF assms(1) that] by simp
    show "fst ` set ?rb = {n. n \<noteq> [] \<and> (\<exists>p \<in> set (map snd bs). normalize_isin rt (JStr (fst p)) = n)}"
      using shape_b_keys [OF assms(1), of rt "[]"] by simp
    show "single_typed rt (set (map snd bs))"
      using assms(2,3) by simp
  qed
  ultimately have "is_exit_tax rt ?ra x = is_exit_tax rt ?rb x"
    by (simp only: assms(2))
  with la lb show ?thesis by blast
qed

theorem shapes_agree_witness:
  "(\<exists>ra rb. load ref_builtins (shape_a funds_a) = Inr ra \<and> load ref_builtins (shape_b funds_b) = Inr rb
       \<and> is_exit_tax ref_builtins ra (JStr ''lu 0001'') \<and> is_exit_tax ref_builtins rb (JStr ''lu 0001''))"
proof -
  have k: "list_all (\<lambda>e. lower (fst (fst e)) = ''isin'') funds_b"
    by code_simp
  have s: "set (map snd funds_a) = set (map snd funds_b)"
    by (auto simp: funds_a_def funds_b_def)
  have n: "normalize_isin ref_builtins (JStr ''ie00 b3'') = ''IE00B3''"
    "normalize_isin ref_builtins (JStr ''GB00 0000'') = ''GB000000''"
    "normalize_isin ref_builtins (JStr ''LU0001'') = ''LU0001''"
    by code_simp+
  have t: "single_typed ref_builtins (set (map snd funds_a))"
    by (simp add: single_typed_def funds_a_def n)
  from shapes_agree [OF k s t, of "JStr ''lu 0001''"]
  obtain ra rb where la: "load ref_builtins (shape_a funds_a) = Inr ra"
    and lb: "load ref_builtins (shape_b funds_b) = Inr rb"
    and eq: "is_exit_tax ref_builtins ra (JStr ''lu 0001'') = is_exit_tax ref_builtins rb (JStr ''lu 0001'')"
    by blast
  have "load ref_builtins (shape_a funds_a)
          = Inr [(''IE00B3'', [(''TYPE'', JStr ''ETF'')]), (''GB000000'', [(''TYPE'', JStr ''EQUITY'')]),
                 (''LU0001'', [(''type'', JStr ''index'')])]"
    by code_simp
  with la have ra: "ra = [(''IE00B3'', [(''TYPE'', JStr ''ETF'')]), (''GB000000'', [(''TYPE'', JStr ''EQUITY'')]),
                 (''LU0001'', [(''type'', JStr ''index'')])]"
    by simp
  have "is_exit_tax ref_builtins [(''IE00B3'', [(''TYPE'', JStr ''ETF'')]), (''GB000000'', [(''TYPE'', JStr ''EQUITY'')]),
                 (''LU0001'', [(''type'', JStr ''index'')])] (JStr ''lu 0001'')"
    by code_simp
  with ra eq la lb show ?thesis by blast
qed

text \<open>
  Two sources with the same set of pairs, whose identifiers differ in case only: in
  each registry the pair that the source lists last takes the key, and the answers
  differ.
\<close>

theorem same_pairs_counterexample:
  "set (map snd clash_a) = set (map snd clash_b)
   \<and> load ref_builtins (shape_a clash_a) = Inr [(''IE00'', [(''TYPE'', JStr ''EQUITY'')])]
   \<and> load ref_builtins (shape_b clash_b) = Inr [(''IE00'', [(''isin'', JStr ''ie00''), (''type'', JStr ''ETF'')])]
   \<and> \<not> is_exit_tax ref_builtins [(''IE00'', [(''TYPE'', JStr ''EQUITY'')])] (JStr ''IE00'')
   \<and> is_exit_tax ref_builtins [(''IE00'', [(''isin'', JStr ''ie00''), (''type'', JStr ''ETF'')])] (JStr ''IE00'')"
proof -
  have "set (map snd clash_a) = set (map snd clash_b)"
    by (auto simp: clash_a_def clash_b_def)
  moreover have "load ref_builtins (shape_a clash_a) = Inr [(''IE00'', [(''TYPE'', JStr ''EQUITY'')])]
   \<and> load ref_builtins (shape_b clash_b) = Inr [(''IE00'', [(''isin'', JStr ''ie00''), (''type'', JStr ''ETF'')])]
   \<and> \<not> is_exit_tax ref_builtins [(''IE00'', [(''TYPE'', JStr ''EQUITY'')])] (JStr ''IE00'')
   \<and> is_exit_tax ref_builtins [(''IE00'', [(''isin'', JStr ''ie00''), (''type'', JStr ''ETF'')])] (JStr ''IE00'')"
    by code_simp
  ultimately show ?thesis by blast
qed

end
